theory Spec2Isabelle
  imports Main "HOL-Library.Word"
begin

unbundle bit_operations_syntax

section \<open>Addresses, masks and the ns-3 address helper\<close>

text \<open>
  An \<open>Ipv4Address\<close> is the 32-bit host-order value ns-3 stores.  The program builds every
  address as the text \<open>"a.b.c.d"\<close> from decimal integers and hands it to the
  \<open>Ipv4Address\<close> constructor; \<open>ipv4 a b c d\<close> is the value of that text.  All integers of
  the address arithmetic are non-negative C++ \<open>int\<close>s far below \<open>2^31\<close>, so they are \<open>nat\<close>
  here and \<open>/\<close>, \<open>%\<close> are \<open>div\<close>, \<open>mod\<close>.
\<close>

type_synonym Ipv4Address = "32 word"

definition ipv4 :: "nat \<Rightarrow> nat \<Rightarrow> nat \<Rightarrow> nat \<Rightarrow> Ipv4Address" where
  "ipv4 a b c d = word_of_nat (a * 16777216 + b * 65536 + c * 256 + d)"

text \<open>The three masks the program writes: 255.255.255.252, 255.255.255.0, 255.255.0.0.\<close>

definition mask30 :: Ipv4Address where "mask30 = ipv4 255 255 255 252"
definition mask24 :: Ipv4Address where "mask24 = ipv4 255 255 255 0"
definition mask16 :: Ipv4Address where "mask16 = ipv4 255 255 0 0"

text \<open>
  \<open>Ipv4AddressHelper\<close>: \<open>SetBase(network, mask)\<close> stores the network and restarts the host
  counter at the default base 0.0.0.1; \<open>NewAddress\<close> hands out network | counter and
  increments the counter.  In ns-3 \<open>NewAddress\<close> also stops the program when the counter has
  left the subnet or when the address was handed out before.  Neither happens in the run of
  the program: every \<open>SetBase\<close> is followed by two calls only, and the 96 addresses are
  pairwise different (lemma \<open>assigned_addresses_distinct\<close>).  These two stops are therefore
  not part of the model, and nothing below is stated about a run in which they would occur.
\<close>

record Ipv4AddressHelper =
  m_network :: Ipv4Address
  m_mask :: Ipv4Address
  m_address :: Ipv4Address

definition SetBase :: "Ipv4Address \<Rightarrow> Ipv4Address \<Rightarrow> Ipv4AddressHelper \<Rightarrow> Ipv4AddressHelper" where
  "SetBase network msk h = \<lparr>m_network = network, m_mask = msk, m_address = 1\<rparr>"

definition NewAddress :: "Ipv4AddressHelper \<Rightarrow> Ipv4Address \<times> Ipv4AddressHelper" where
  "NewAddress h = (m_network h OR m_address h, h\<lparr>m_address := m_address h + 1\<rparr>)"

section \<open>Fat-tree parameters and nodes\<close>

text \<open>
  The definitions below take \<open>k\<close> where the source writes \<open>K\<close>, \<open>NUM_PODS\<close> or \<open>K/2\<close>.  The
  program is the instance \<open>k = K\<close>: it declares four pods of eight nodes each, so it has no
  other instance, and every theorem below is about \<open>K\<close>.
\<close>

definition K :: nat where "K = 4"

definition NUM_PODS :: "nat \<Rightarrow> nat" where "NUM_PODS k = k"
definition NUM_CORE :: "nat \<Rightarrow> nat" where "NUM_CORE k = (k div 2) * (k div 2)"

text \<open>
  \<open>PodNode pod i\<close> is \<open>pods[pod].Get(i)\<close>: 0-3 servers, 4-5 access switches, 6-7
  aggregation switches.  \<open>CoreNode c\<close> is \<open>coreNodes.Get(c)\<close>.
\<close>

datatype node = PodNode nat nat | CoreNode nat

text \<open>\<open>std::to_string\<close> on a non-negative integer.\<close>

fun to_string :: "nat \<Rightarrow> string" where
  "to_string n = (if n < 10 then [''0123456789'' ! n]
                  else to_string (n div 10) @ [''0123456789'' ! (n mod 10)])"

declare to_string.simps [simp del]

text \<open>
  One point-to-point link: \<open>Install(a, b)\<close> followed by \<open>Assign\<close>, which gives the first
  address to \<open>a\<close>'s device and the second to \<open>b\<close>'s (\<open>GetAddress(0)\<close>, \<open>GetAddress(1)\<close>).
\<close>

record p2p_link =
  endA :: node
  endB :: node
  addr0 :: Ipv4Address
  addr1 :: Ipv4Address

record Ipv4RoutingTableEntry =
  destNetwork :: Ipv4Address
  destNetworkMask :: Ipv4Address
  gateway :: Ipv4Address
  interface :: int

text \<open>
  The state \<open>main\<close> builds: the address helper \<open>address\<close>, the links in the order they
  are installed, the global map \<open>interfaces\<close> from key to the two addresses of the stored
  \<open>Ipv4InterfaceContainer\<close>, and for every node the entries of its \<open>Ipv4StaticRouting\<close> in the
  order they are added.
\<close>

record world =
  address :: Ipv4AddressHelper
  channels :: "p2p_link list"
  interfaces :: "string \<rightharpoonup> (Ipv4Address \<times> Ipv4Address)"
  staticRouting :: "node \<Rightarrow> Ipv4RoutingTableEntry list"

definition emptyWorld :: "Ipv4AddressHelper \<Rightarrow> world" where
  "emptyWorld h = \<lparr>address = h, channels = [], interfaces = Map.empty, staticRouting = (\<lambda>n. [])\<rparr>"

section \<open>Part 4 of main: links and /30 subnets\<close>

definition InstallAssign :: "node \<Rightarrow> node \<Rightarrow> Ipv4Address \<Rightarrow> string \<Rightarrow> world \<Rightarrow> world" where
  "InstallAssign a b subnet key w =
     (let h1 = SetBase subnet mask30 (address w);
          (a0, h2) = NewAddress h1;
          (a1, h3) = NewAddress h2
      in w\<lparr>address := h3,
            channels := channels w @ [\<lparr>endA = a, endB = b, addr0 = a0, addr1 = a1\<rparr>],
            interfaces := (interfaces w)(key \<mapsto> (a0, a1))\<rparr>)"

definition serverLinks :: "nat \<Rightarrow> world \<Rightarrow> world" where
  "serverLinks pod = fold (\<lambda>server w.
     (let accessSwitch = (if server < 2 then 4 else 5);
          switchId = accessSwitch - 4;
          offset = server * 4
      in InstallAssign (PodNode pod server) (PodNode pod accessSwitch)
           (ipv4 10 pod switchId offset)
           (''pod'' @ to_string pod @ ''_server'' @ to_string server) w)) [0..<4]"

definition switchLinks :: "nat \<Rightarrow> world \<Rightarrow> world" where
  "switchLinks pod = fold (\<lambda>lower. fold (\<lambda>upper w.
     (let lowerId = lower - 4;
          upperId = upper - 6;
          linkId = lowerId * 2 + upperId;
          offset = 16 + linkId * 4
      in InstallAssign (PodNode pod lower) (PodNode pod upper)
           (ipv4 10 pod (2 + upperId) offset)
           (''pod'' @ to_string pod @ ''_lower'' @ to_string lowerId
              @ ''_upper'' @ to_string upperId) w)) [6..<8]) [4..<6]"

definition podLinks :: "nat \<Rightarrow> world \<Rightarrow> world" where
  "podLinks k = fold (\<lambda>pod w. switchLinks pod (serverLinks pod w)) [0..<NUM_PODS k]"

definition coreLinks :: "nat \<Rightarrow> world \<Rightarrow> world" where
  "coreLinks k w = snd (fold (\<lambda>i. fold (\<lambda>j.
     (let coreId = i * (k div 2) + j
      in fold (\<lambda>pod (coreLink, w).
           (let aggrSwitch = 6 + i;
                subnet3 = coreLink div 64;
                subnet4 = (coreLink mod 64) * 4
            in (coreLink + 1,
                InstallAssign (PodNode pod aggrSwitch) (CoreNode coreId)
                  (ipv4 10 10 subnet3 subnet4)
                  (''pod'' @ to_string pod @ ''_aggr'' @ to_string i
                     @ ''_core'' @ to_string coreId) w))) [0..<NUM_PODS k]))
     [0..<k div 2]) [0..<k div 2] (0, w))"

definition buildTopology :: "nat \<Rightarrow> world \<Rightarrow> world" where
  "buildTopology k w = coreLinks k (podLinks k w)"

section \<open>Part 5 of main: static routes\<close>

text \<open>
  \<open>interfaces[key].GetAddress(i)\<close> has no defined result when nothing was stored under the
  key or \<open>i\<close> is neither 0 nor 1; here that stops the run with an error.
\<close>

datatype error = MissingInterface string

definition GetAddress :: "world \<Rightarrow> string \<Rightarrow> nat \<Rightarrow> error + Ipv4Address" where
  "GetAddress w key i =
     (case interfaces w key of
        None \<Rightarrow> Inl (MissingInterface key)
      | Some (a0, a1) \<Rightarrow> if i = 0 then Inr a0 else if i = 1 then Inr a1
                          else Inl (MissingInterface key))"

text \<open>
  The IPv4 interfaces of a node: index 0 is the loopback the internet stack installs, then
  one interface per attached device in the order \<open>Assign\<close> met them.
\<close>

definition localAddr :: "node \<Rightarrow> p2p_link \<Rightarrow> Ipv4Address" where
  "localAddr n l = (if endA l = n then addr0 l else addr1 l)"

definition linksAt :: "p2p_link list \<Rightarrow> node \<Rightarrow> p2p_link list" where
  "linksAt chs n = filter (\<lambda>l. endA l = n \<or> endB l = n) chs"

definition nodeLinks :: "world \<Rightarrow> node \<Rightarrow> p2p_link list" where
  "nodeLinks w n = linksAt (channels w) n"

definition nodeAddresses :: "world \<Rightarrow> node \<Rightarrow> Ipv4Address list" where
  "nodeAddresses w n = ipv4 127 0 0 1 # map (localAddr n) (nodeLinks w n)"

text \<open>
  \<open>GetInterfaceForAddress\<close> is the index of the interface that holds the address, -1 when
  there is none; the program passes the number on as the interface of the route.
\<close>

fun indexOf :: "Ipv4Address \<Rightarrow> Ipv4Address list \<Rightarrow> int \<Rightarrow> int" where
  "indexOf a [] i = -1"
| "indexOf a (x # xs) i = (if x = a then i else indexOf a xs (i + 1))"

definition GetInterfaceForAddress :: "world \<Rightarrow> node \<Rightarrow> Ipv4Address \<Rightarrow> int" where
  "GetInterfaceForAddress w n a = indexOf a (nodeAddresses w n) 0"

definition AddNetworkRouteTo ::
  "node \<Rightarrow> Ipv4Address \<Rightarrow> Ipv4Address \<Rightarrow> Ipv4Address \<Rightarrow> int \<Rightarrow> world \<Rightarrow> world" where
  "AddNetworkRouteTo n network msk nextHop ifc w =
     w\<lparr>staticRouting := (staticRouting w)
         (n := staticRouting w n @
            [\<lparr>destNetwork = network, destNetworkMask = msk, gateway = nextHop, interface = ifc\<rparr>])\<rparr>"

definition SetDefaultRoute :: "node \<Rightarrow> Ipv4Address \<Rightarrow> int \<Rightarrow> world \<Rightarrow> world" where
  "SetDefaultRoute n nextHop ifc = AddNetworkRouteTo n 0 0 nextHop ifc"

text \<open>A \<open>for\<close> loop over the given indices whose body may stop the run.\<close>

fun forE :: "nat list \<Rightarrow> (nat \<Rightarrow> world \<Rightarrow> error + world) \<Rightarrow> world \<Rightarrow> error + world" where
  "forE [] body w = Inr w"
| "forE (x # xs) body w = (case body x w of Inl e \<Rightarrow> Inl e | Inr w' \<Rightarrow> forE xs body w')"

definition serverRoutes :: "nat \<Rightarrow> world \<Rightarrow> error + world" where
  "serverRoutes k = forE [0..<NUM_PODS k] (\<lambda>pod. forE [0..<4] (\<lambda>server w.
     (let key = ''pod'' @ to_string pod @ ''_server'' @ to_string server
      in case GetAddress w key 1 of
           Inl e \<Rightarrow> Inl e
         | Inr gatewayIP \<Rightarrow> Inr (SetDefaultRoute (PodNode pod server) gatewayIP 1 w))))"

text \<open>
  The loop over \<open>otherPod\<close> of parts 5.2 and 5.3: a /16 route to every other pod through one
  next hop and interface.
\<close>

definition otherPodRoutes ::
  "nat \<Rightarrow> node \<Rightarrow> nat \<Rightarrow> Ipv4Address \<Rightarrow> int \<Rightarrow> world \<Rightarrow> world" where
  "otherPodRoutes k n pod nextHop ifc = fold (\<lambda>otherPod w.
     (if otherPod \<noteq> pod
      then AddNetworkRouteTo n (ipv4 10 otherPod 0 0) mask16 nextHop ifc w
      else w)) [0..<NUM_PODS k]"

definition accessRoutes :: "nat \<Rightarrow> world \<Rightarrow> error + world" where
  "accessRoutes k = forE [0..<NUM_PODS k] (\<lambda>pod. forE [0..<2] (\<lambda>accessId w.
     (let n = PodNode pod (4 + accessId);
          key = ''pod'' @ to_string pod @ ''_lower'' @ to_string accessId @ ''_upper0''
      in case GetAddress w key 1 of
           Inl e \<Rightarrow> Inl e
         | Inr nextHop \<Rightarrow>
             (case GetAddress w key 0 of
                Inl e \<Rightarrow> Inl e
              | Inr own \<Rightarrow>
                  (let outInterface = GetInterfaceForAddress w n own;
                       otherAccessId = (if accessId = 0 then 1 else 0);
                       switchId = otherAccessId;
                       w1 = AddNetworkRouteTo n (ipv4 10 pod switchId 0) mask24
                              nextHop outInterface w
                   in Inr (otherPodRoutes k n pod nextHop outInterface w1))))))"

definition aggrDownRoutes :: "nat \<Rightarrow> nat \<Rightarrow> world \<Rightarrow> error + world" where
  "aggrDownRoutes pod aggrId = forE [0..<2] (\<lambda>accessId w.
     (let n = PodNode pod (6 + aggrId);
          key = ''pod'' @ to_string pod @ ''_lower'' @ to_string accessId
                  @ ''_upper'' @ to_string aggrId
      in case GetAddress w key 0 of
           Inl e \<Rightarrow> Inl e
         | Inr nextHop \<Rightarrow>
             (case GetAddress w key 1 of
                Inl e \<Rightarrow> Inl e
              | Inr own \<Rightarrow>
                  Inr (AddNetworkRouteTo n (ipv4 10 pod accessId 0) mask24 nextHop
                         (GetInterfaceForAddress w n own) w))))"

definition aggrUpRoutes :: "nat \<Rightarrow> nat \<Rightarrow> nat \<Rightarrow> world \<Rightarrow> error + world" where
  "aggrUpRoutes k pod aggrId = forE [0..<k div 2] (\<lambda>j w.
     (let n = PodNode pod (6 + aggrId);
          coreId = aggrId * (k div 2) + j;
          coreKey = ''pod'' @ to_string pod @ ''_aggr'' @ to_string aggrId
                      @ ''_core'' @ to_string coreId
      in case GetAddress w coreKey 1 of
           Inl e \<Rightarrow> Inl e
         | Inr coreNextHop \<Rightarrow>
             (case GetAddress w coreKey 0 of
                Inl e \<Rightarrow> Inl e
              | Inr own \<Rightarrow>
                  Inr (otherPodRoutes k n pod coreNextHop
                         (GetInterfaceForAddress w n own) w))))"

definition aggrRoutes :: "nat \<Rightarrow> world \<Rightarrow> error + world" where
  "aggrRoutes k = forE [0..<NUM_PODS k] (\<lambda>pod. forE [0..<2] (\<lambda>aggrId w.
     (case aggrDownRoutes pod aggrId w of
        Inl e \<Rightarrow> Inl e
      | Inr w1 \<Rightarrow> aggrUpRoutes k pod aggrId w1)))"

definition coreRoutes :: "nat \<Rightarrow> world \<Rightarrow> error + world" where
  "coreRoutes k = forE [0..<k div 2] (\<lambda>i. forE [0..<k div 2] (\<lambda>j.
     (let coreId = i * (k div 2) + j
      in forE [0..<NUM_PODS k] (\<lambda>pod w.
           (let key = ''pod'' @ to_string pod @ ''_aggr'' @ to_string i
                        @ ''_core'' @ to_string coreId
            in case GetAddress w key 0 of
                 Inl e \<Rightarrow> Inl e
               | Inr nextHop \<Rightarrow>
                   (case GetAddress w key 1 of
                      Inl e \<Rightarrow> Inl e
                    | Inr own \<Rightarrow>
                        Inr (AddNetworkRouteTo (CoreNode coreId) (ipv4 10 pod 0 0) mask16 nextHop
                               (GetInterfaceForAddress w (CoreNode coreId) own) w)))))))"

definition configureRouting :: "nat \<Rightarrow> world \<Rightarrow> error + world" where
  "configureRouting k w =
     (case serverRoutes k w of Inl e \<Rightarrow> Inl e | Inr w1 \<Rightarrow>
      (case accessRoutes k w1 of Inl e \<Rightarrow> Inl e | Inr w2 \<Rightarrow>
       (case aggrRoutes k w2 of Inl e \<Rightarrow> Inl e | Inr w3 \<Rightarrow> coreRoutes k w3)))"

text \<open>
  Parts 4 and 5 of \<open>main\<close> from a given state of the address helper and of the global
  \<open>interfaces\<close> map; \<open>fatTree\<close> is the program as it starts, with the map empty.
\<close>

definition fatTreeFrom :: "nat \<Rightarrow> world \<Rightarrow> error + world" where
  "fatTreeFrom k w = configureRouting k (buildTopology k w)"

definition fatTree :: "nat \<Rightarrow> Ipv4AddressHelper \<Rightarrow> error + world" where
  "fatTree k h = fatTreeFrom k (emptyWorld h)"

text \<open>The state of a default-constructed \<open>Ipv4AddressHelper\<close>.\<close>

definition initialHelper :: Ipv4AddressHelper where
  "initialHelper = \<lparr>m_network = 0xFFFFFFFF, m_mask = 0, m_address = 0xFFFFFFFF\<rparr>"


section \<open>Forwarding over the installed tables\<close>

text \<open>
  What ns-3 does with the tables at run time.  Every interface that received an address
  also has the directly connected route of its /30 (added when the address is assigned,
  before any static route).  \<open>Ipv4StaticRouting::LookupStatic\<close> keeps the matching entries
  of greatest prefix length (all metrics are 0); \<open>longestMatches\<close> returns all of them, so a
  statement about every element covers whichever one a tie-break picks.  A packet leaves
  through the entry's interface and, the devices being point-to-point, reaches the node at
  the other end of that link.
\<close>

definition IsMatch :: "Ipv4Address \<Rightarrow> Ipv4Address \<Rightarrow> Ipv4Address \<Rightarrow> bool" where
  "IsMatch msk a b = (a AND msk = b AND msk)"

fun shiftCount :: "nat \<Rightarrow> Ipv4Address \<Rightarrow> nat" where
  "shiftCount 0 m = 0"
| "shiftCount (Suc n) m = (if m = 0 then 0 else Suc (shiftCount n (push_bit 1 m)))"

definition GetPrefixLength :: "Ipv4Address \<Rightarrow> nat" where
  "GetPrefixLength m = shiftCount 32 m"

definition connectedRoutes :: "world \<Rightarrow> node \<Rightarrow> Ipv4RoutingTableEntry list" where
  "connectedRoutes w n =
     map (\<lambda>(i, l). \<lparr>destNetwork = localAddr n l AND mask30, destNetworkMask = mask30,
                      gateway = 0, interface = int i\<rparr>)
         (enumerate 1 (nodeLinks w n))"

definition routingTable :: "world \<Rightarrow> node \<Rightarrow> Ipv4RoutingTableEntry list" where
  "routingTable w n = connectedRoutes w n @ staticRouting w n"

definition longestMatches :: "Ipv4RoutingTableEntry list \<Rightarrow> Ipv4Address \<Rightarrow> Ipv4RoutingTableEntry list" where
  "longestMatches tbl d =
     (let ms = filter (\<lambda>r. IsMatch (destNetworkMask r) d (destNetwork r)) tbl;
          longest = fold max (map (\<lambda>r. GetPrefixLength (destNetworkMask r)) ms) 0
      in filter (\<lambda>r. GetPrefixLength (destNetworkMask r) = longest) ms)"

definition peer :: "node \<Rightarrow> p2p_link \<Rightarrow> node" where
  "peer n l = (if endA l = n then endB l else endA l)"

definition outLink :: "world \<Rightarrow> node \<Rightarrow> Ipv4RoutingTableEntry \<Rightarrow> p2p_link option" where
  "outLink w n r =
     (let ls = nodeLinks w n; i = interface r
      in if 1 \<le> i \<and> i \<le> int (length ls) then Some (ls ! (nat i - 1)) else None)"

definition nextNodes :: "world \<Rightarrow> node \<Rightarrow> Ipv4Address \<Rightarrow> node option list" where
  "nextNodes w n d =
     map (\<lambda>r. map_option (peer n) (outLink w n r)) (longestMatches (routingTable w n) d)"

datatype outcome = Delivered | NoRoute | TtlExpired

text \<open>
  Every way a packet for \<open>d\<close> can travel from \<open>n\<close>: the nodes visited, \<open>n\<close> first, and how
  the journey ends.  The first argument bounds the number of hops, as the TTL does.
\<close>

fun walks :: "world \<Rightarrow> nat \<Rightarrow> node \<Rightarrow> Ipv4Address \<Rightarrow> (node list \<times> outcome) list" where
  "walks w 0 n d =
     [([n], if d \<in> set (nodeAddresses w n) then Delivered else TtlExpired)]"
| "walks w (Suc ttl) n d =
     (if d \<in> set (nodeAddresses w n) then [([n], Delivered)]
      else case nextNodes w n d of
             [] \<Rightarrow> [([n], NoRoute)]
           | hops \<Rightarrow> concat (map (\<lambda>hop. case hop of
                           None \<Rightarrow> [([n], NoRoute)]
                         | Some m \<Rightarrow> map (\<lambda>(p, out). (n # p, out)) (walks w ttl m d)) hops))"

text \<open>The nodes of the fabric by tier, and the access switch a server is cabled to.\<close>

definition servers :: "nat \<Rightarrow> node list" where
  "servers k = concat (map (\<lambda>pod. map (\<lambda>server. PodNode pod server) [0..<4]) [0..<NUM_PODS k])"

definition accessSwitches :: "nat \<Rightarrow> node list" where
  "accessSwitches k =
     concat (map (\<lambda>pod. map (\<lambda>accessId. PodNode pod (4 + accessId)) [0..<2]) [0..<NUM_PODS k])"

definition aggrSwitches :: "nat \<Rightarrow> node list" where
  "aggrSwitches k =
     concat (map (\<lambda>pod. map (\<lambda>aggrId. PodNode pod (6 + aggrId)) [0..<2]) [0..<NUM_PODS k])"

definition coreSwitches :: "nat \<Rightarrow> node list" where
  "coreSwitches k = map CoreNode [0..<NUM_CORE k]"

definition accessSwitchOf :: "nat \<Rightarrow> nat" where
  "accessSwitchOf server = (if server < 2 then 4 else 5)"

fun podOf :: "node \<Rightarrow> nat" where
  "podOf (PodNode pod i) = pod"
| "podOf (CoreNode c) = 0"

fun indexOfNode :: "node \<Rightarrow> nat" where
  "indexOfNode (PodNode pod i) = i"
| "indexOfNode (CoreNode c) = c"

text \<open>The address part 4.1 gives a server: the first address of its link's /30.\<close>

definition serverAddr :: "nat \<Rightarrow> nat \<Rightarrow> Ipv4Address" where
  "serverAddr pod server = ipv4 10 pod (accessSwitchOf server - 4) (server * 4) OR 1"

text \<open>
  The number of switches a journey passes: the nodes strictly between its first and its last.
  \<open>maxSwitches\<close> is the bound for a pair of servers: 1 under one access switch, 3 inside a
  pod, 5 across pods.
\<close>

definition switchesOn :: "node list \<Rightarrow> nat" where
  "switchesOn path = length path - 2"

definition maxSwitches :: "node \<Rightarrow> node \<Rightarrow> nat" where
  "maxSwitches src dst =
     (if podOf src \<noteq> podOf dst then 5
      else if accessSwitchOf (indexOfNode src) \<noteq> accessSwitchOf (indexOfNode dst) then 3
      else 1)"

section \<open>Properties of tables and of the address plan\<close>

text \<open>The /30 a link was given, and whether an address lies in it.\<close>

definition subnet30 :: "p2p_link \<Rightarrow> Ipv4Address" where
  "subnet30 l = addr0 l AND mask30"

definition inSubnet30 :: "Ipv4Address \<Rightarrow> p2p_link \<Rightarrow> bool" where
  "inSubnet30 a l = IsMatch mask30 a (subnet30 l)"

text \<open>The entries of a table for one destination prefix.\<close>

definition entriesFor ::
  "Ipv4RoutingTableEntry list \<Rightarrow> Ipv4Address \<Rightarrow> Ipv4Address \<Rightarrow> Ipv4RoutingTableEntry list" where
  "entriesFor tbl network msk =
     filter (\<lambda>r. destNetwork r = network \<and> destNetworkMask r = msk) tbl"

text \<open>No two entries for the same prefix with different next hops.\<close>

definition conflictFree :: "Ipv4RoutingTableEntry list \<Rightarrow> bool" where
  "conflictFree tbl =
     list_all (\<lambda>r. list_all (\<lambda>r'.
        \<not> (destNetwork r = destNetwork r' \<and> destNetworkMask r = destNetworkMask r'
           \<and> gateway r \<noteq> gateway r')) tbl) tbl"

section \<open>The L2 learning switch (\<open>L2SwitchProtocol\<close>)\<close>

text \<open>
  A \<open>Ptr<NetDevice>\<close> is a value of type \<open>'dev\<close>; \<open>nullptr\<close> is \<open>None\<close>.  The switch state
  is the MAC table together with the device list of the node it is aggregated to
  (\<open>m_node->GetDevice(i)\<close> for \<open>i < GetNDevices()\<close>).  \<open>SendFrom\<close> on a device is recorded as
  a \<open>frame\<close> in the list of transmissions a call produces, in the order they happen.
\<close>

type_synonym Mac48Address = "48 word"

record ('dev, 'pkt) frame =
  outDev :: 'dev
  payload :: 'pkt
  srcMac :: Mac48Address
  dstMac :: Mac48Address
  proto :: "16 word"

record 'dev L2SwitchProtocol =
  m_macTable :: "Mac48Address \<rightharpoonup> 'dev"
  m_devices :: "'dev list"

definition IsBroadcast :: "Mac48Address \<Rightarrow> bool" where
  "IsBroadcast m = (m = 0xFFFFFFFFFFFF)"

definition Learn :: "Mac48Address \<Rightarrow> 'dev \<Rightarrow> 'dev L2SwitchProtocol \<Rightarrow> 'dev L2SwitchProtocol" where
  "Learn source inDevice s =
     (case m_macTable s source of
        None \<Rightarrow> s\<lparr>m_macTable := (m_macTable s)(source \<mapsto> inDevice)\<rparr>
      | Some d \<Rightarrow> if d \<noteq> inDevice
                  then s\<lparr>m_macTable := (m_macTable s)(source \<mapsto> inDevice)\<rparr>
                  else s)"

definition GetLearnedPort :: "'dev L2SwitchProtocol \<Rightarrow> Mac48Address \<Rightarrow> 'dev option" where
  "GetLearnedPort s destination = m_macTable s destination"

definition ForwardUnicast ::
  "'dev \<Rightarrow> 'pkt \<Rightarrow> 16 word \<Rightarrow> Mac48Address \<Rightarrow> Mac48Address \<Rightarrow> ('dev, 'pkt) frame list" where
  "ForwardUnicast outDevice packet protocol source destination =
     [\<lparr>outDev = outDevice, payload = packet, srcMac = source, dstMac = destination,
       proto = protocol\<rparr>]"

definition ForwardBroadcast ::
  "'dev L2SwitchProtocol \<Rightarrow> 'dev \<Rightarrow> 'pkt \<Rightarrow> 16 word \<Rightarrow> Mac48Address \<Rightarrow> Mac48Address
     \<Rightarrow> ('dev, 'pkt) frame list" where
  "ForwardBroadcast s inDevice packet protocol source destination =
     concat (map (\<lambda>device.
        if device \<noteq> inDevice
        then [\<lparr>outDev = device, payload = packet, srcMac = source, dstMac = destination,
               proto = protocol\<rparr>]
        else []) (m_devices s))"

text \<open>
  \<open>ReceiveFromDevice\<close> returns the new state, the frames sent and the callback's result
  (always \<open>true\<close>).
\<close>

definition ReceiveFromDevice ::
  "'dev L2SwitchProtocol \<Rightarrow> 'dev \<Rightarrow> 'pkt \<Rightarrow> 16 word \<Rightarrow> Mac48Address \<Rightarrow> Mac48Address
     \<Rightarrow> 'dev L2SwitchProtocol \<times> ('dev, 'pkt) frame list \<times> bool" where
  "ReceiveFromDevice s inDevice packet protocol from to =
     (let s1 = Learn from inDevice s
      in if IsBroadcast to
         then (s1, ForwardBroadcast s1 inDevice packet protocol from to, True)
         else (case GetLearnedPort s1 to of
                 Some outDevice \<Rightarrow>
                   if outDevice \<noteq> inDevice
                   then (s1, ForwardUnicast outDevice packet protocol from to, True)
                   else (s1, [], True)
               | None \<Rightarrow> (s1, ForwardBroadcast s1 inDevice packet protocol from to, True)))"

section \<open>The result of running the program for K = 4\<close>

text \<open>
  The tables below are what the program computes; lemma \<open>fatTree_K\<close> proves it by
  running the model.  They only serve to look results up without running it again.
\<close>

abbreviation lnk :: "node \<Rightarrow> node \<Rightarrow> Ipv4Address \<Rightarrow> Ipv4Address \<Rightarrow> p2p_link" where
  "lnk a b x y \<equiv> \<lparr>endA = a, endB = b, addr0 = x, addr1 = y\<rparr>"

abbreviation rt :: "Ipv4Address \<Rightarrow> Ipv4Address \<Rightarrow> Ipv4Address \<Rightarrow> int \<Rightarrow> Ipv4RoutingTableEntry" where
  "rt d m g i \<equiv> \<lparr>destNetwork = d, destNetworkMask = m, gateway = g, interface = i\<rparr>"

definition fatTreeChannels :: "p2p_link list" where
  "fatTreeChannels =
    [lnk (PodNode 0 0) (PodNode 0 4) (ipv4 10 0 0 1) (ipv4 10 0 0 2),
     lnk (PodNode 0 1) (PodNode 0 4) (ipv4 10 0 0 5) (ipv4 10 0 0 6),
     lnk (PodNode 0 2) (PodNode 0 5) (ipv4 10 0 1 9) (ipv4 10 0 1 10),
     lnk (PodNode 0 3) (PodNode 0 5) (ipv4 10 0 1 13) (ipv4 10 0 1 14),
     lnk (PodNode 0 4) (PodNode 0 6) (ipv4 10 0 2 17) (ipv4 10 0 2 18),
     lnk (PodNode 0 4) (PodNode 0 7) (ipv4 10 0 3 21) (ipv4 10 0 3 22),
     lnk (PodNode 0 5) (PodNode 0 6) (ipv4 10 0 2 25) (ipv4 10 0 2 26),
     lnk (PodNode 0 5) (PodNode 0 7) (ipv4 10 0 3 29) (ipv4 10 0 3 30),
     lnk (PodNode 1 0) (PodNode 1 4) (ipv4 10 1 0 1) (ipv4 10 1 0 2),
     lnk (PodNode 1 1) (PodNode 1 4) (ipv4 10 1 0 5) (ipv4 10 1 0 6),
     lnk (PodNode 1 2) (PodNode 1 5) (ipv4 10 1 1 9) (ipv4 10 1 1 10),
     lnk (PodNode 1 3) (PodNode 1 5) (ipv4 10 1 1 13) (ipv4 10 1 1 14),
     lnk (PodNode 1 4) (PodNode 1 6) (ipv4 10 1 2 17) (ipv4 10 1 2 18),
     lnk (PodNode 1 4) (PodNode 1 7) (ipv4 10 1 3 21) (ipv4 10 1 3 22),
     lnk (PodNode 1 5) (PodNode 1 6) (ipv4 10 1 2 25) (ipv4 10 1 2 26),
     lnk (PodNode 1 5) (PodNode 1 7) (ipv4 10 1 3 29) (ipv4 10 1 3 30),
     lnk (PodNode 2 0) (PodNode 2 4) (ipv4 10 2 0 1) (ipv4 10 2 0 2),
     lnk (PodNode 2 1) (PodNode 2 4) (ipv4 10 2 0 5) (ipv4 10 2 0 6),
     lnk (PodNode 2 2) (PodNode 2 5) (ipv4 10 2 1 9) (ipv4 10 2 1 10),
     lnk (PodNode 2 3) (PodNode 2 5) (ipv4 10 2 1 13) (ipv4 10 2 1 14),
     lnk (PodNode 2 4) (PodNode 2 6) (ipv4 10 2 2 17) (ipv4 10 2 2 18),
     lnk (PodNode 2 4) (PodNode 2 7) (ipv4 10 2 3 21) (ipv4 10 2 3 22),
     lnk (PodNode 2 5) (PodNode 2 6) (ipv4 10 2 2 25) (ipv4 10 2 2 26),
     lnk (PodNode 2 5) (PodNode 2 7) (ipv4 10 2 3 29) (ipv4 10 2 3 30),
     lnk (PodNode 3 0) (PodNode 3 4) (ipv4 10 3 0 1) (ipv4 10 3 0 2),
     lnk (PodNode 3 1) (PodNode 3 4) (ipv4 10 3 0 5) (ipv4 10 3 0 6),
     lnk (PodNode 3 2) (PodNode 3 5) (ipv4 10 3 1 9) (ipv4 10 3 1 10),
     lnk (PodNode 3 3) (PodNode 3 5) (ipv4 10 3 1 13) (ipv4 10 3 1 14),
     lnk (PodNode 3 4) (PodNode 3 6) (ipv4 10 3 2 17) (ipv4 10 3 2 18),
     lnk (PodNode 3 4) (PodNode 3 7) (ipv4 10 3 3 21) (ipv4 10 3 3 22),
     lnk (PodNode 3 5) (PodNode 3 6) (ipv4 10 3 2 25) (ipv4 10 3 2 26),
     lnk (PodNode 3 5) (PodNode 3 7) (ipv4 10 3 3 29) (ipv4 10 3 3 30),
     lnk (PodNode 0 6) (CoreNode 0) (ipv4 10 10 0 1) (ipv4 10 10 0 2),
     lnk (PodNode 1 6) (CoreNode 0) (ipv4 10 10 0 5) (ipv4 10 10 0 6),
     lnk (PodNode 2 6) (CoreNode 0) (ipv4 10 10 0 9) (ipv4 10 10 0 10),
     lnk (PodNode 3 6) (CoreNode 0) (ipv4 10 10 0 13) (ipv4 10 10 0 14),
     lnk (PodNode 0 6) (CoreNode 1) (ipv4 10 10 0 17) (ipv4 10 10 0 18),
     lnk (PodNode 1 6) (CoreNode 1) (ipv4 10 10 0 21) (ipv4 10 10 0 22),
     lnk (PodNode 2 6) (CoreNode 1) (ipv4 10 10 0 25) (ipv4 10 10 0 26),
     lnk (PodNode 3 6) (CoreNode 1) (ipv4 10 10 0 29) (ipv4 10 10 0 30),
     lnk (PodNode 0 7) (CoreNode 2) (ipv4 10 10 0 33) (ipv4 10 10 0 34),
     lnk (PodNode 1 7) (CoreNode 2) (ipv4 10 10 0 37) (ipv4 10 10 0 38),
     lnk (PodNode 2 7) (CoreNode 2) (ipv4 10 10 0 41) (ipv4 10 10 0 42),
     lnk (PodNode 3 7) (CoreNode 2) (ipv4 10 10 0 45) (ipv4 10 10 0 46),
     lnk (PodNode 0 7) (CoreNode 3) (ipv4 10 10 0 49) (ipv4 10 10 0 50),
     lnk (PodNode 1 7) (CoreNode 3) (ipv4 10 10 0 53) (ipv4 10 10 0 54),
     lnk (PodNode 2 7) (CoreNode 3) (ipv4 10 10 0 57) (ipv4 10 10 0 58),
     lnk (PodNode 3 7) (CoreNode 3) (ipv4 10 10 0 61) (ipv4 10 10 0 62)]"

definition fatTreeInterfaces :: "string \<rightharpoonup> (Ipv4Address \<times> Ipv4Address)" where
  "fatTreeInterfaces =
    [''pod0_server0'' \<mapsto> (ipv4 10 0 0 1, ipv4 10 0 0 2),
     ''pod0_server1'' \<mapsto> (ipv4 10 0 0 5, ipv4 10 0 0 6),
     ''pod0_server2'' \<mapsto> (ipv4 10 0 1 9, ipv4 10 0 1 10),
     ''pod0_server3'' \<mapsto> (ipv4 10 0 1 13, ipv4 10 0 1 14),
     ''pod0_lower0_upper0'' \<mapsto> (ipv4 10 0 2 17, ipv4 10 0 2 18),
     ''pod0_lower0_upper1'' \<mapsto> (ipv4 10 0 3 21, ipv4 10 0 3 22),
     ''pod0_lower1_upper0'' \<mapsto> (ipv4 10 0 2 25, ipv4 10 0 2 26),
     ''pod0_lower1_upper1'' \<mapsto> (ipv4 10 0 3 29, ipv4 10 0 3 30),
     ''pod1_server0'' \<mapsto> (ipv4 10 1 0 1, ipv4 10 1 0 2),
     ''pod1_server1'' \<mapsto> (ipv4 10 1 0 5, ipv4 10 1 0 6),
     ''pod1_server2'' \<mapsto> (ipv4 10 1 1 9, ipv4 10 1 1 10),
     ''pod1_server3'' \<mapsto> (ipv4 10 1 1 13, ipv4 10 1 1 14),
     ''pod1_lower0_upper0'' \<mapsto> (ipv4 10 1 2 17, ipv4 10 1 2 18),
     ''pod1_lower0_upper1'' \<mapsto> (ipv4 10 1 3 21, ipv4 10 1 3 22),
     ''pod1_lower1_upper0'' \<mapsto> (ipv4 10 1 2 25, ipv4 10 1 2 26),
     ''pod1_lower1_upper1'' \<mapsto> (ipv4 10 1 3 29, ipv4 10 1 3 30),
     ''pod2_server0'' \<mapsto> (ipv4 10 2 0 1, ipv4 10 2 0 2),
     ''pod2_server1'' \<mapsto> (ipv4 10 2 0 5, ipv4 10 2 0 6),
     ''pod2_server2'' \<mapsto> (ipv4 10 2 1 9, ipv4 10 2 1 10),
     ''pod2_server3'' \<mapsto> (ipv4 10 2 1 13, ipv4 10 2 1 14),
     ''pod2_lower0_upper0'' \<mapsto> (ipv4 10 2 2 17, ipv4 10 2 2 18),
     ''pod2_lower0_upper1'' \<mapsto> (ipv4 10 2 3 21, ipv4 10 2 3 22),
     ''pod2_lower1_upper0'' \<mapsto> (ipv4 10 2 2 25, ipv4 10 2 2 26),
     ''pod2_lower1_upper1'' \<mapsto> (ipv4 10 2 3 29, ipv4 10 2 3 30),
     ''pod3_server0'' \<mapsto> (ipv4 10 3 0 1, ipv4 10 3 0 2),
     ''pod3_server1'' \<mapsto> (ipv4 10 3 0 5, ipv4 10 3 0 6),
     ''pod3_server2'' \<mapsto> (ipv4 10 3 1 9, ipv4 10 3 1 10),
     ''pod3_server3'' \<mapsto> (ipv4 10 3 1 13, ipv4 10 3 1 14),
     ''pod3_lower0_upper0'' \<mapsto> (ipv4 10 3 2 17, ipv4 10 3 2 18),
     ''pod3_lower0_upper1'' \<mapsto> (ipv4 10 3 3 21, ipv4 10 3 3 22),
     ''pod3_lower1_upper0'' \<mapsto> (ipv4 10 3 2 25, ipv4 10 3 2 26),
     ''pod3_lower1_upper1'' \<mapsto> (ipv4 10 3 3 29, ipv4 10 3 3 30),
     ''pod0_aggr0_core0'' \<mapsto> (ipv4 10 10 0 1, ipv4 10 10 0 2),
     ''pod1_aggr0_core0'' \<mapsto> (ipv4 10 10 0 5, ipv4 10 10 0 6),
     ''pod2_aggr0_core0'' \<mapsto> (ipv4 10 10 0 9, ipv4 10 10 0 10),
     ''pod3_aggr0_core0'' \<mapsto> (ipv4 10 10 0 13, ipv4 10 10 0 14),
     ''pod0_aggr0_core1'' \<mapsto> (ipv4 10 10 0 17, ipv4 10 10 0 18),
     ''pod1_aggr0_core1'' \<mapsto> (ipv4 10 10 0 21, ipv4 10 10 0 22),
     ''pod2_aggr0_core1'' \<mapsto> (ipv4 10 10 0 25, ipv4 10 10 0 26),
     ''pod3_aggr0_core1'' \<mapsto> (ipv4 10 10 0 29, ipv4 10 10 0 30),
     ''pod0_aggr1_core2'' \<mapsto> (ipv4 10 10 0 33, ipv4 10 10 0 34),
     ''pod1_aggr1_core2'' \<mapsto> (ipv4 10 10 0 37, ipv4 10 10 0 38),
     ''pod2_aggr1_core2'' \<mapsto> (ipv4 10 10 0 41, ipv4 10 10 0 42),
     ''pod3_aggr1_core2'' \<mapsto> (ipv4 10 10 0 45, ipv4 10 10 0 46),
     ''pod0_aggr1_core3'' \<mapsto> (ipv4 10 10 0 49, ipv4 10 10 0 50),
     ''pod1_aggr1_core3'' \<mapsto> (ipv4 10 10 0 53, ipv4 10 10 0 54),
     ''pod2_aggr1_core3'' \<mapsto> (ipv4 10 10 0 57, ipv4 10 10 0 58),
     ''pod3_aggr1_core3'' \<mapsto> (ipv4 10 10 0 61, ipv4 10 10 0 62)]"

definition fatTreeRouting :: "node \<Rightarrow> Ipv4RoutingTableEntry list" where
  "fatTreeRouting = (\<lambda>n. [])
    (PodNode 0 0 := [rt 0 0 (ipv4 10 0 0 2) 1],
     PodNode 0 1 := [rt 0 0 (ipv4 10 0 0 6) 1],
     PodNode 0 2 := [rt 0 0 (ipv4 10 0 1 10) 1],
     PodNode 0 3 := [rt 0 0 (ipv4 10 0 1 14) 1],
     PodNode 1 0 := [rt 0 0 (ipv4 10 1 0 2) 1],
     PodNode 1 1 := [rt 0 0 (ipv4 10 1 0 6) 1],
     PodNode 1 2 := [rt 0 0 (ipv4 10 1 1 10) 1],
     PodNode 1 3 := [rt 0 0 (ipv4 10 1 1 14) 1],
     PodNode 2 0 := [rt 0 0 (ipv4 10 2 0 2) 1],
     PodNode 2 1 := [rt 0 0 (ipv4 10 2 0 6) 1],
     PodNode 2 2 := [rt 0 0 (ipv4 10 2 1 10) 1],
     PodNode 2 3 := [rt 0 0 (ipv4 10 2 1 14) 1],
     PodNode 3 0 := [rt 0 0 (ipv4 10 3 0 2) 1],
     PodNode 3 1 := [rt 0 0 (ipv4 10 3 0 6) 1],
     PodNode 3 2 := [rt 0 0 (ipv4 10 3 1 10) 1],
     PodNode 3 3 := [rt 0 0 (ipv4 10 3 1 14) 1],
     PodNode 0 4 := [rt (ipv4 10 0 1 0) mask24 (ipv4 10 0 2 18) 3,
        rt (ipv4 10 1 0 0) mask16 (ipv4 10 0 2 18) 3,
        rt (ipv4 10 2 0 0) mask16 (ipv4 10 0 2 18) 3,
        rt (ipv4 10 3 0 0) mask16 (ipv4 10 0 2 18) 3],
     PodNode 0 5 := [rt (ipv4 10 0 0 0) mask24 (ipv4 10 0 2 26) 3,
        rt (ipv4 10 1 0 0) mask16 (ipv4 10 0 2 26) 3,
        rt (ipv4 10 2 0 0) mask16 (ipv4 10 0 2 26) 3,
        rt (ipv4 10 3 0 0) mask16 (ipv4 10 0 2 26) 3],
     PodNode 1 4 := [rt (ipv4 10 1 1 0) mask24 (ipv4 10 1 2 18) 3,
        rt (ipv4 10 0 0 0) mask16 (ipv4 10 1 2 18) 3,
        rt (ipv4 10 2 0 0) mask16 (ipv4 10 1 2 18) 3,
        rt (ipv4 10 3 0 0) mask16 (ipv4 10 1 2 18) 3],
     PodNode 1 5 := [rt (ipv4 10 1 0 0) mask24 (ipv4 10 1 2 26) 3,
        rt (ipv4 10 0 0 0) mask16 (ipv4 10 1 2 26) 3,
        rt (ipv4 10 2 0 0) mask16 (ipv4 10 1 2 26) 3,
        rt (ipv4 10 3 0 0) mask16 (ipv4 10 1 2 26) 3],
     PodNode 2 4 := [rt (ipv4 10 2 1 0) mask24 (ipv4 10 2 2 18) 3,
        rt (ipv4 10 0 0 0) mask16 (ipv4 10 2 2 18) 3,
        rt (ipv4 10 1 0 0) mask16 (ipv4 10 2 2 18) 3,
        rt (ipv4 10 3 0 0) mask16 (ipv4 10 2 2 18) 3],
     PodNode 2 5 := [rt (ipv4 10 2 0 0) mask24 (ipv4 10 2 2 26) 3,
        rt (ipv4 10 0 0 0) mask16 (ipv4 10 2 2 26) 3,
        rt (ipv4 10 1 0 0) mask16 (ipv4 10 2 2 26) 3,
        rt (ipv4 10 3 0 0) mask16 (ipv4 10 2 2 26) 3],
     PodNode 3 4 := [rt (ipv4 10 3 1 0) mask24 (ipv4 10 3 2 18) 3,
        rt (ipv4 10 0 0 0) mask16 (ipv4 10 3 2 18) 3,
        rt (ipv4 10 1 0 0) mask16 (ipv4 10 3 2 18) 3,
        rt (ipv4 10 2 0 0) mask16 (ipv4 10 3 2 18) 3],
     PodNode 3 5 := [rt (ipv4 10 3 0 0) mask24 (ipv4 10 3 2 26) 3,
        rt (ipv4 10 0 0 0) mask16 (ipv4 10 3 2 26) 3,
        rt (ipv4 10 1 0 0) mask16 (ipv4 10 3 2 26) 3,
        rt (ipv4 10 2 0 0) mask16 (ipv4 10 3 2 26) 3],
     PodNode 0 6 := [rt (ipv4 10 0 0 0) mask24 (ipv4 10 0 2 17) 1,
        rt (ipv4 10 0 1 0) mask24 (ipv4 10 0 2 25) 2,
        rt (ipv4 10 1 0 0) mask16 (ipv4 10 10 0 2) 3,
        rt (ipv4 10 2 0 0) mask16 (ipv4 10 10 0 2) 3,
        rt (ipv4 10 3 0 0) mask16 (ipv4 10 10 0 2) 3,
        rt (ipv4 10 1 0 0) mask16 (ipv4 10 10 0 18) 4,
        rt (ipv4 10 2 0 0) mask16 (ipv4 10 10 0 18) 4,
        rt (ipv4 10 3 0 0) mask16 (ipv4 10 10 0 18) 4],
     PodNode 0 7 := [rt (ipv4 10 0 0 0) mask24 (ipv4 10 0 3 21) 1,
        rt (ipv4 10 0 1 0) mask24 (ipv4 10 0 3 29) 2,
        rt (ipv4 10 1 0 0) mask16 (ipv4 10 10 0 34) 3,
        rt (ipv4 10 2 0 0) mask16 (ipv4 10 10 0 34) 3,
        rt (ipv4 10 3 0 0) mask16 (ipv4 10 10 0 34) 3,
        rt (ipv4 10 1 0 0) mask16 (ipv4 10 10 0 50) 4,
        rt (ipv4 10 2 0 0) mask16 (ipv4 10 10 0 50) 4,
        rt (ipv4 10 3 0 0) mask16 (ipv4 10 10 0 50) 4],
     PodNode 1 6 := [rt (ipv4 10 1 0 0) mask24 (ipv4 10 1 2 17) 1,
        rt (ipv4 10 1 1 0) mask24 (ipv4 10 1 2 25) 2,
        rt (ipv4 10 0 0 0) mask16 (ipv4 10 10 0 6) 3,
        rt (ipv4 10 2 0 0) mask16 (ipv4 10 10 0 6) 3,
        rt (ipv4 10 3 0 0) mask16 (ipv4 10 10 0 6) 3,
        rt (ipv4 10 0 0 0) mask16 (ipv4 10 10 0 22) 4,
        rt (ipv4 10 2 0 0) mask16 (ipv4 10 10 0 22) 4,
        rt (ipv4 10 3 0 0) mask16 (ipv4 10 10 0 22) 4],
     PodNode 1 7 := [rt (ipv4 10 1 0 0) mask24 (ipv4 10 1 3 21) 1,
        rt (ipv4 10 1 1 0) mask24 (ipv4 10 1 3 29) 2,
        rt (ipv4 10 0 0 0) mask16 (ipv4 10 10 0 38) 3,
        rt (ipv4 10 2 0 0) mask16 (ipv4 10 10 0 38) 3,
        rt (ipv4 10 3 0 0) mask16 (ipv4 10 10 0 38) 3,
        rt (ipv4 10 0 0 0) mask16 (ipv4 10 10 0 54) 4,
        rt (ipv4 10 2 0 0) mask16 (ipv4 10 10 0 54) 4,
        rt (ipv4 10 3 0 0) mask16 (ipv4 10 10 0 54) 4],
     PodNode 2 6 := [rt (ipv4 10 2 0 0) mask24 (ipv4 10 2 2 17) 1,
        rt (ipv4 10 2 1 0) mask24 (ipv4 10 2 2 25) 2,
        rt (ipv4 10 0 0 0) mask16 (ipv4 10 10 0 10) 3,
        rt (ipv4 10 1 0 0) mask16 (ipv4 10 10 0 10) 3,
        rt (ipv4 10 3 0 0) mask16 (ipv4 10 10 0 10) 3,
        rt (ipv4 10 0 0 0) mask16 (ipv4 10 10 0 26) 4,
        rt (ipv4 10 1 0 0) mask16 (ipv4 10 10 0 26) 4,
        rt (ipv4 10 3 0 0) mask16 (ipv4 10 10 0 26) 4],
     PodNode 2 7 := [rt (ipv4 10 2 0 0) mask24 (ipv4 10 2 3 21) 1,
        rt (ipv4 10 2 1 0) mask24 (ipv4 10 2 3 29) 2,
        rt (ipv4 10 0 0 0) mask16 (ipv4 10 10 0 42) 3,
        rt (ipv4 10 1 0 0) mask16 (ipv4 10 10 0 42) 3,
        rt (ipv4 10 3 0 0) mask16 (ipv4 10 10 0 42) 3,
        rt (ipv4 10 0 0 0) mask16 (ipv4 10 10 0 58) 4,
        rt (ipv4 10 1 0 0) mask16 (ipv4 10 10 0 58) 4,
        rt (ipv4 10 3 0 0) mask16 (ipv4 10 10 0 58) 4],
     PodNode 3 6 := [rt (ipv4 10 3 0 0) mask24 (ipv4 10 3 2 17) 1,
        rt (ipv4 10 3 1 0) mask24 (ipv4 10 3 2 25) 2,
        rt (ipv4 10 0 0 0) mask16 (ipv4 10 10 0 14) 3,
        rt (ipv4 10 1 0 0) mask16 (ipv4 10 10 0 14) 3,
        rt (ipv4 10 2 0 0) mask16 (ipv4 10 10 0 14) 3,
        rt (ipv4 10 0 0 0) mask16 (ipv4 10 10 0 30) 4,
        rt (ipv4 10 1 0 0) mask16 (ipv4 10 10 0 30) 4,
        rt (ipv4 10 2 0 0) mask16 (ipv4 10 10 0 30) 4],
     PodNode 3 7 := [rt (ipv4 10 3 0 0) mask24 (ipv4 10 3 3 21) 1,
        rt (ipv4 10 3 1 0) mask24 (ipv4 10 3 3 29) 2,
        rt (ipv4 10 0 0 0) mask16 (ipv4 10 10 0 46) 3,
        rt (ipv4 10 1 0 0) mask16 (ipv4 10 10 0 46) 3,
        rt (ipv4 10 2 0 0) mask16 (ipv4 10 10 0 46) 3,
        rt (ipv4 10 0 0 0) mask16 (ipv4 10 10 0 62) 4,
        rt (ipv4 10 1 0 0) mask16 (ipv4 10 10 0 62) 4,
        rt (ipv4 10 2 0 0) mask16 (ipv4 10 10 0 62) 4],
     CoreNode 0 := [rt (ipv4 10 0 0 0) mask16 (ipv4 10 10 0 1) 1,
        rt (ipv4 10 1 0 0) mask16 (ipv4 10 10 0 5) 2,
        rt (ipv4 10 2 0 0) mask16 (ipv4 10 10 0 9) 3,
        rt (ipv4 10 3 0 0) mask16 (ipv4 10 10 0 13) 4],
     CoreNode 1 := [rt (ipv4 10 0 0 0) mask16 (ipv4 10 10 0 17) 1,
        rt (ipv4 10 1 0 0) mask16 (ipv4 10 10 0 21) 2,
        rt (ipv4 10 2 0 0) mask16 (ipv4 10 10 0 25) 3,
        rt (ipv4 10 3 0 0) mask16 (ipv4 10 10 0 29) 4],
     CoreNode 2 := [rt (ipv4 10 0 0 0) mask16 (ipv4 10 10 0 33) 1,
        rt (ipv4 10 1 0 0) mask16 (ipv4 10 10 0 37) 2,
        rt (ipv4 10 2 0 0) mask16 (ipv4 10 10 0 41) 3,
        rt (ipv4 10 3 0 0) mask16 (ipv4 10 10 0 45) 4],
     CoreNode 3 := [rt (ipv4 10 0 0 0) mask16 (ipv4 10 10 0 49) 1,
        rt (ipv4 10 1 0 0) mask16 (ipv4 10 10 0 53) 2,
        rt (ipv4 10 2 0 0) mask16 (ipv4 10 10 0 57) 3,
        rt (ipv4 10 3 0 0) mask16 (ipv4 10 10 0 61) 4])"

definition fatTreeWorld :: world where
  "fatTreeWorld = \<lparr>address = \<lparr>m_network = ipv4 10 10 0 60, m_mask = mask30, m_address = 3\<rparr>,
     channels = fatTreeChannels, interfaces = fatTreeInterfaces, staticRouting = fatTreeRouting\<rparr>"

section \<open>Running the model\<close>

lemma upt_small: "[0..<2] = [0,1]" "[0..<4] = [0,1,2,3]" "[4..<6] = [4,5]" "[6..<8] = [6,7]"
  by (simp_all add: upt_rec)

lemma nat_lt4: "n < 4 \<longleftrightarrow> n = 0 \<or> n = 1 \<or> n = 2 \<or> n = (3::nat)"
  by auto

lemma nat_lt2: "n < 2 \<longleftrightarrow> n = 0 \<or> n = (1::nat)"
  by auto

lemmas build_defs = serverLinks_def switchLinks_def podLinks_def coreLinks_def buildTopology_def
  emptyWorld_def InstallAssign_def SetBase_def NewAddress_def Let_def ipv4_def mask30_def
  to_string.simps upt_small NUM_PODS_def

text \<open>
  The links, addresses and interface keys after part 4, from any helper state \<open>h\<close> and any
  previous content \<open>m\<close> of the \<open>interfaces\<close> map.
\<close>

lemma buildTopology_K:
  "buildTopology K (emptyWorld h\<lparr>interfaces := m\<rparr>)
     = fatTreeWorld\<lparr>interfaces := m ++ fatTreeInterfaces, staticRouting := (\<lambda>n. [])\<rparr>"
  by (simp add: K_def build_defs fatTreeWorld_def fatTreeChannels_def fatTreeInterfaces_def)

lemma fatTreeInterfaces_lookup:
  "(m ++ fatTreeInterfaces) ''pod0_server0'' = Some (ipv4 10 0 0 1, ipv4 10 0 0 2)"
  "(m ++ fatTreeInterfaces) ''pod0_server1'' = Some (ipv4 10 0 0 5, ipv4 10 0 0 6)"
  "(m ++ fatTreeInterfaces) ''pod0_server2'' = Some (ipv4 10 0 1 9, ipv4 10 0 1 10)"
  "(m ++ fatTreeInterfaces) ''pod0_server3'' = Some (ipv4 10 0 1 13, ipv4 10 0 1 14)"
  "(m ++ fatTreeInterfaces) ''pod0_lower0_upper0'' = Some (ipv4 10 0 2 17, ipv4 10 0 2 18)"
  "(m ++ fatTreeInterfaces) ''pod0_lower0_upper1'' = Some (ipv4 10 0 3 21, ipv4 10 0 3 22)"
  "(m ++ fatTreeInterfaces) ''pod0_lower1_upper0'' = Some (ipv4 10 0 2 25, ipv4 10 0 2 26)"
  "(m ++ fatTreeInterfaces) ''pod0_lower1_upper1'' = Some (ipv4 10 0 3 29, ipv4 10 0 3 30)"
  "(m ++ fatTreeInterfaces) ''pod1_server0'' = Some (ipv4 10 1 0 1, ipv4 10 1 0 2)"
  "(m ++ fatTreeInterfaces) ''pod1_server1'' = Some (ipv4 10 1 0 5, ipv4 10 1 0 6)"
  "(m ++ fatTreeInterfaces) ''pod1_server2'' = Some (ipv4 10 1 1 9, ipv4 10 1 1 10)"
  "(m ++ fatTreeInterfaces) ''pod1_server3'' = Some (ipv4 10 1 1 13, ipv4 10 1 1 14)"
  "(m ++ fatTreeInterfaces) ''pod1_lower0_upper0'' = Some (ipv4 10 1 2 17, ipv4 10 1 2 18)"
  "(m ++ fatTreeInterfaces) ''pod1_lower0_upper1'' = Some (ipv4 10 1 3 21, ipv4 10 1 3 22)"
  "(m ++ fatTreeInterfaces) ''pod1_lower1_upper0'' = Some (ipv4 10 1 2 25, ipv4 10 1 2 26)"
  "(m ++ fatTreeInterfaces) ''pod1_lower1_upper1'' = Some (ipv4 10 1 3 29, ipv4 10 1 3 30)"
  "(m ++ fatTreeInterfaces) ''pod2_server0'' = Some (ipv4 10 2 0 1, ipv4 10 2 0 2)"
  "(m ++ fatTreeInterfaces) ''pod2_server1'' = Some (ipv4 10 2 0 5, ipv4 10 2 0 6)"
  "(m ++ fatTreeInterfaces) ''pod2_server2'' = Some (ipv4 10 2 1 9, ipv4 10 2 1 10)"
  "(m ++ fatTreeInterfaces) ''pod2_server3'' = Some (ipv4 10 2 1 13, ipv4 10 2 1 14)"
  "(m ++ fatTreeInterfaces) ''pod2_lower0_upper0'' = Some (ipv4 10 2 2 17, ipv4 10 2 2 18)"
  "(m ++ fatTreeInterfaces) ''pod2_lower0_upper1'' = Some (ipv4 10 2 3 21, ipv4 10 2 3 22)"
  "(m ++ fatTreeInterfaces) ''pod2_lower1_upper0'' = Some (ipv4 10 2 2 25, ipv4 10 2 2 26)"
  "(m ++ fatTreeInterfaces) ''pod2_lower1_upper1'' = Some (ipv4 10 2 3 29, ipv4 10 2 3 30)"
  "(m ++ fatTreeInterfaces) ''pod3_server0'' = Some (ipv4 10 3 0 1, ipv4 10 3 0 2)"
  "(m ++ fatTreeInterfaces) ''pod3_server1'' = Some (ipv4 10 3 0 5, ipv4 10 3 0 6)"
  "(m ++ fatTreeInterfaces) ''pod3_server2'' = Some (ipv4 10 3 1 9, ipv4 10 3 1 10)"
  "(m ++ fatTreeInterfaces) ''pod3_server3'' = Some (ipv4 10 3 1 13, ipv4 10 3 1 14)"
  "(m ++ fatTreeInterfaces) ''pod3_lower0_upper0'' = Some (ipv4 10 3 2 17, ipv4 10 3 2 18)"
  "(m ++ fatTreeInterfaces) ''pod3_lower0_upper1'' = Some (ipv4 10 3 3 21, ipv4 10 3 3 22)"
  "(m ++ fatTreeInterfaces) ''pod3_lower1_upper0'' = Some (ipv4 10 3 2 25, ipv4 10 3 2 26)"
  "(m ++ fatTreeInterfaces) ''pod3_lower1_upper1'' = Some (ipv4 10 3 3 29, ipv4 10 3 3 30)"
  "(m ++ fatTreeInterfaces) ''pod0_aggr0_core0'' = Some (ipv4 10 10 0 1, ipv4 10 10 0 2)"
  "(m ++ fatTreeInterfaces) ''pod1_aggr0_core0'' = Some (ipv4 10 10 0 5, ipv4 10 10 0 6)"
  "(m ++ fatTreeInterfaces) ''pod2_aggr0_core0'' = Some (ipv4 10 10 0 9, ipv4 10 10 0 10)"
  "(m ++ fatTreeInterfaces) ''pod3_aggr0_core0'' = Some (ipv4 10 10 0 13, ipv4 10 10 0 14)"
  "(m ++ fatTreeInterfaces) ''pod0_aggr0_core1'' = Some (ipv4 10 10 0 17, ipv4 10 10 0 18)"
  "(m ++ fatTreeInterfaces) ''pod1_aggr0_core1'' = Some (ipv4 10 10 0 21, ipv4 10 10 0 22)"
  "(m ++ fatTreeInterfaces) ''pod2_aggr0_core1'' = Some (ipv4 10 10 0 25, ipv4 10 10 0 26)"
  "(m ++ fatTreeInterfaces) ''pod3_aggr0_core1'' = Some (ipv4 10 10 0 29, ipv4 10 10 0 30)"
  "(m ++ fatTreeInterfaces) ''pod0_aggr1_core2'' = Some (ipv4 10 10 0 33, ipv4 10 10 0 34)"
  "(m ++ fatTreeInterfaces) ''pod1_aggr1_core2'' = Some (ipv4 10 10 0 37, ipv4 10 10 0 38)"
  "(m ++ fatTreeInterfaces) ''pod2_aggr1_core2'' = Some (ipv4 10 10 0 41, ipv4 10 10 0 42)"
  "(m ++ fatTreeInterfaces) ''pod3_aggr1_core2'' = Some (ipv4 10 10 0 45, ipv4 10 10 0 46)"
  "(m ++ fatTreeInterfaces) ''pod0_aggr1_core3'' = Some (ipv4 10 10 0 49, ipv4 10 10 0 50)"
  "(m ++ fatTreeInterfaces) ''pod1_aggr1_core3'' = Some (ipv4 10 10 0 53, ipv4 10 10 0 54)"
  "(m ++ fatTreeInterfaces) ''pod2_aggr1_core3'' = Some (ipv4 10 10 0 57, ipv4 10 10 0 58)"
  "(m ++ fatTreeInterfaces) ''pod3_aggr1_core3'' = Some (ipv4 10 10 0 61, ipv4 10 10 0 62)"
  by (simp_all add: fatTreeInterfaces_def)

lemma linksAt_fatTree:
  "linksAt fatTreeChannels (PodNode 0 0) =
     [lnk (PodNode 0 0) (PodNode 0 4) (ipv4 10 0 0 1) (ipv4 10 0 0 2)]"
  "linksAt fatTreeChannels (PodNode 0 1) =
     [lnk (PodNode 0 1) (PodNode 0 4) (ipv4 10 0 0 5) (ipv4 10 0 0 6)]"
  "linksAt fatTreeChannels (PodNode 0 2) =
     [lnk (PodNode 0 2) (PodNode 0 5) (ipv4 10 0 1 9) (ipv4 10 0 1 10)]"
  "linksAt fatTreeChannels (PodNode 0 3) =
     [lnk (PodNode 0 3) (PodNode 0 5) (ipv4 10 0 1 13) (ipv4 10 0 1 14)]"
  "linksAt fatTreeChannels (PodNode 0 4) =
     [lnk (PodNode 0 0) (PodNode 0 4) (ipv4 10 0 0 1) (ipv4 10 0 0 2),
      lnk (PodNode 0 1) (PodNode 0 4) (ipv4 10 0 0 5) (ipv4 10 0 0 6),
      lnk (PodNode 0 4) (PodNode 0 6) (ipv4 10 0 2 17) (ipv4 10 0 2 18),
      lnk (PodNode 0 4) (PodNode 0 7) (ipv4 10 0 3 21) (ipv4 10 0 3 22)]"
  "linksAt fatTreeChannels (PodNode 0 5) =
     [lnk (PodNode 0 2) (PodNode 0 5) (ipv4 10 0 1 9) (ipv4 10 0 1 10),
      lnk (PodNode 0 3) (PodNode 0 5) (ipv4 10 0 1 13) (ipv4 10 0 1 14),
      lnk (PodNode 0 5) (PodNode 0 6) (ipv4 10 0 2 25) (ipv4 10 0 2 26),
      lnk (PodNode 0 5) (PodNode 0 7) (ipv4 10 0 3 29) (ipv4 10 0 3 30)]"
  "linksAt fatTreeChannels (PodNode 0 6) =
     [lnk (PodNode 0 4) (PodNode 0 6) (ipv4 10 0 2 17) (ipv4 10 0 2 18),
      lnk (PodNode 0 5) (PodNode 0 6) (ipv4 10 0 2 25) (ipv4 10 0 2 26),
      lnk (PodNode 0 6) (CoreNode 0) (ipv4 10 10 0 1) (ipv4 10 10 0 2),
      lnk (PodNode 0 6) (CoreNode 1) (ipv4 10 10 0 17) (ipv4 10 10 0 18)]"
  "linksAt fatTreeChannels (PodNode 0 7) =
     [lnk (PodNode 0 4) (PodNode 0 7) (ipv4 10 0 3 21) (ipv4 10 0 3 22),
      lnk (PodNode 0 5) (PodNode 0 7) (ipv4 10 0 3 29) (ipv4 10 0 3 30),
      lnk (PodNode 0 7) (CoreNode 2) (ipv4 10 10 0 33) (ipv4 10 10 0 34),
      lnk (PodNode 0 7) (CoreNode 3) (ipv4 10 10 0 49) (ipv4 10 10 0 50)]"
  "linksAt fatTreeChannels (PodNode 1 0) =
     [lnk (PodNode 1 0) (PodNode 1 4) (ipv4 10 1 0 1) (ipv4 10 1 0 2)]"
  "linksAt fatTreeChannels (PodNode 1 1) =
     [lnk (PodNode 1 1) (PodNode 1 4) (ipv4 10 1 0 5) (ipv4 10 1 0 6)]"
  "linksAt fatTreeChannels (PodNode 1 2) =
     [lnk (PodNode 1 2) (PodNode 1 5) (ipv4 10 1 1 9) (ipv4 10 1 1 10)]"
  "linksAt fatTreeChannels (PodNode 1 3) =
     [lnk (PodNode 1 3) (PodNode 1 5) (ipv4 10 1 1 13) (ipv4 10 1 1 14)]"
  "linksAt fatTreeChannels (PodNode 1 4) =
     [lnk (PodNode 1 0) (PodNode 1 4) (ipv4 10 1 0 1) (ipv4 10 1 0 2),
      lnk (PodNode 1 1) (PodNode 1 4) (ipv4 10 1 0 5) (ipv4 10 1 0 6),
      lnk (PodNode 1 4) (PodNode 1 6) (ipv4 10 1 2 17) (ipv4 10 1 2 18),
      lnk (PodNode 1 4) (PodNode 1 7) (ipv4 10 1 3 21) (ipv4 10 1 3 22)]"
  "linksAt fatTreeChannels (PodNode 1 5) =
     [lnk (PodNode 1 2) (PodNode 1 5) (ipv4 10 1 1 9) (ipv4 10 1 1 10),
      lnk (PodNode 1 3) (PodNode 1 5) (ipv4 10 1 1 13) (ipv4 10 1 1 14),
      lnk (PodNode 1 5) (PodNode 1 6) (ipv4 10 1 2 25) (ipv4 10 1 2 26),
      lnk (PodNode 1 5) (PodNode 1 7) (ipv4 10 1 3 29) (ipv4 10 1 3 30)]"
  "linksAt fatTreeChannels (PodNode 1 6) =
     [lnk (PodNode 1 4) (PodNode 1 6) (ipv4 10 1 2 17) (ipv4 10 1 2 18),
      lnk (PodNode 1 5) (PodNode 1 6) (ipv4 10 1 2 25) (ipv4 10 1 2 26),
      lnk (PodNode 1 6) (CoreNode 0) (ipv4 10 10 0 5) (ipv4 10 10 0 6),
      lnk (PodNode 1 6) (CoreNode 1) (ipv4 10 10 0 21) (ipv4 10 10 0 22)]"
  "linksAt fatTreeChannels (PodNode 1 7) =
     [lnk (PodNode 1 4) (PodNode 1 7) (ipv4 10 1 3 21) (ipv4 10 1 3 22),
      lnk (PodNode 1 5) (PodNode 1 7) (ipv4 10 1 3 29) (ipv4 10 1 3 30),
      lnk (PodNode 1 7) (CoreNode 2) (ipv4 10 10 0 37) (ipv4 10 10 0 38),
      lnk (PodNode 1 7) (CoreNode 3) (ipv4 10 10 0 53) (ipv4 10 10 0 54)]"
  "linksAt fatTreeChannels (PodNode 2 0) =
     [lnk (PodNode 2 0) (PodNode 2 4) (ipv4 10 2 0 1) (ipv4 10 2 0 2)]"
  "linksAt fatTreeChannels (PodNode 2 1) =
     [lnk (PodNode 2 1) (PodNode 2 4) (ipv4 10 2 0 5) (ipv4 10 2 0 6)]"
  "linksAt fatTreeChannels (PodNode 2 2) =
     [lnk (PodNode 2 2) (PodNode 2 5) (ipv4 10 2 1 9) (ipv4 10 2 1 10)]"
  "linksAt fatTreeChannels (PodNode 2 3) =
     [lnk (PodNode 2 3) (PodNode 2 5) (ipv4 10 2 1 13) (ipv4 10 2 1 14)]"
  "linksAt fatTreeChannels (PodNode 2 4) =
     [lnk (PodNode 2 0) (PodNode 2 4) (ipv4 10 2 0 1) (ipv4 10 2 0 2),
      lnk (PodNode 2 1) (PodNode 2 4) (ipv4 10 2 0 5) (ipv4 10 2 0 6),
      lnk (PodNode 2 4) (PodNode 2 6) (ipv4 10 2 2 17) (ipv4 10 2 2 18),
      lnk (PodNode 2 4) (PodNode 2 7) (ipv4 10 2 3 21) (ipv4 10 2 3 22)]"
  "linksAt fatTreeChannels (PodNode 2 5) =
     [lnk (PodNode 2 2) (PodNode 2 5) (ipv4 10 2 1 9) (ipv4 10 2 1 10),
      lnk (PodNode 2 3) (PodNode 2 5) (ipv4 10 2 1 13) (ipv4 10 2 1 14),
      lnk (PodNode 2 5) (PodNode 2 6) (ipv4 10 2 2 25) (ipv4 10 2 2 26),
      lnk (PodNode 2 5) (PodNode 2 7) (ipv4 10 2 3 29) (ipv4 10 2 3 30)]"
  "linksAt fatTreeChannels (PodNode 2 6) =
     [lnk (PodNode 2 4) (PodNode 2 6) (ipv4 10 2 2 17) (ipv4 10 2 2 18),
      lnk (PodNode 2 5) (PodNode 2 6) (ipv4 10 2 2 25) (ipv4 10 2 2 26),
      lnk (PodNode 2 6) (CoreNode 0) (ipv4 10 10 0 9) (ipv4 10 10 0 10),
      lnk (PodNode 2 6) (CoreNode 1) (ipv4 10 10 0 25) (ipv4 10 10 0 26)]"
  "linksAt fatTreeChannels (PodNode 2 7) =
     [lnk (PodNode 2 4) (PodNode 2 7) (ipv4 10 2 3 21) (ipv4 10 2 3 22),
      lnk (PodNode 2 5) (PodNode 2 7) (ipv4 10 2 3 29) (ipv4 10 2 3 30),
      lnk (PodNode 2 7) (CoreNode 2) (ipv4 10 10 0 41) (ipv4 10 10 0 42),
      lnk (PodNode 2 7) (CoreNode 3) (ipv4 10 10 0 57) (ipv4 10 10 0 58)]"
  "linksAt fatTreeChannels (PodNode 3 0) =
     [lnk (PodNode 3 0) (PodNode 3 4) (ipv4 10 3 0 1) (ipv4 10 3 0 2)]"
  "linksAt fatTreeChannels (PodNode 3 1) =
     [lnk (PodNode 3 1) (PodNode 3 4) (ipv4 10 3 0 5) (ipv4 10 3 0 6)]"
  "linksAt fatTreeChannels (PodNode 3 2) =
     [lnk (PodNode 3 2) (PodNode 3 5) (ipv4 10 3 1 9) (ipv4 10 3 1 10)]"
  "linksAt fatTreeChannels (PodNode 3 3) =
     [lnk (PodNode 3 3) (PodNode 3 5) (ipv4 10 3 1 13) (ipv4 10 3 1 14)]"
  "linksAt fatTreeChannels (PodNode 3 4) =
     [lnk (PodNode 3 0) (PodNode 3 4) (ipv4 10 3 0 1) (ipv4 10 3 0 2),
      lnk (PodNode 3 1) (PodNode 3 4) (ipv4 10 3 0 5) (ipv4 10 3 0 6),
      lnk (PodNode 3 4) (PodNode 3 6) (ipv4 10 3 2 17) (ipv4 10 3 2 18),
      lnk (PodNode 3 4) (PodNode 3 7) (ipv4 10 3 3 21) (ipv4 10 3 3 22)]"
  "linksAt fatTreeChannels (PodNode 3 5) =
     [lnk (PodNode 3 2) (PodNode 3 5) (ipv4 10 3 1 9) (ipv4 10 3 1 10),
      lnk (PodNode 3 3) (PodNode 3 5) (ipv4 10 3 1 13) (ipv4 10 3 1 14),
      lnk (PodNode 3 5) (PodNode 3 6) (ipv4 10 3 2 25) (ipv4 10 3 2 26),
      lnk (PodNode 3 5) (PodNode 3 7) (ipv4 10 3 3 29) (ipv4 10 3 3 30)]"
  "linksAt fatTreeChannels (PodNode 3 6) =
     [lnk (PodNode 3 4) (PodNode 3 6) (ipv4 10 3 2 17) (ipv4 10 3 2 18),
      lnk (PodNode 3 5) (PodNode 3 6) (ipv4 10 3 2 25) (ipv4 10 3 2 26),
      lnk (PodNode 3 6) (CoreNode 0) (ipv4 10 10 0 13) (ipv4 10 10 0 14),
      lnk (PodNode 3 6) (CoreNode 1) (ipv4 10 10 0 29) (ipv4 10 10 0 30)]"
  "linksAt fatTreeChannels (PodNode 3 7) =
     [lnk (PodNode 3 4) (PodNode 3 7) (ipv4 10 3 3 21) (ipv4 10 3 3 22),
      lnk (PodNode 3 5) (PodNode 3 7) (ipv4 10 3 3 29) (ipv4 10 3 3 30),
      lnk (PodNode 3 7) (CoreNode 2) (ipv4 10 10 0 45) (ipv4 10 10 0 46),
      lnk (PodNode 3 7) (CoreNode 3) (ipv4 10 10 0 61) (ipv4 10 10 0 62)]"
  "linksAt fatTreeChannels (CoreNode 0) =
     [lnk (PodNode 0 6) (CoreNode 0) (ipv4 10 10 0 1) (ipv4 10 10 0 2),
      lnk (PodNode 1 6) (CoreNode 0) (ipv4 10 10 0 5) (ipv4 10 10 0 6),
      lnk (PodNode 2 6) (CoreNode 0) (ipv4 10 10 0 9) (ipv4 10 10 0 10),
      lnk (PodNode 3 6) (CoreNode 0) (ipv4 10 10 0 13) (ipv4 10 10 0 14)]"
  "linksAt fatTreeChannels (CoreNode 1) =
     [lnk (PodNode 0 6) (CoreNode 1) (ipv4 10 10 0 17) (ipv4 10 10 0 18),
      lnk (PodNode 1 6) (CoreNode 1) (ipv4 10 10 0 21) (ipv4 10 10 0 22),
      lnk (PodNode 2 6) (CoreNode 1) (ipv4 10 10 0 25) (ipv4 10 10 0 26),
      lnk (PodNode 3 6) (CoreNode 1) (ipv4 10 10 0 29) (ipv4 10 10 0 30)]"
  "linksAt fatTreeChannels (CoreNode 2) =
     [lnk (PodNode 0 7) (CoreNode 2) (ipv4 10 10 0 33) (ipv4 10 10 0 34),
      lnk (PodNode 1 7) (CoreNode 2) (ipv4 10 10 0 37) (ipv4 10 10 0 38),
      lnk (PodNode 2 7) (CoreNode 2) (ipv4 10 10 0 41) (ipv4 10 10 0 42),
      lnk (PodNode 3 7) (CoreNode 2) (ipv4 10 10 0 45) (ipv4 10 10 0 46)]"
  "linksAt fatTreeChannels (CoreNode 3) =
     [lnk (PodNode 0 7) (CoreNode 3) (ipv4 10 10 0 49) (ipv4 10 10 0 50),
      lnk (PodNode 1 7) (CoreNode 3) (ipv4 10 10 0 53) (ipv4 10 10 0 54),
      lnk (PodNode 2 7) (CoreNode 3) (ipv4 10 10 0 57) (ipv4 10 10 0 58),
      lnk (PodNode 3 7) (CoreNode 3) (ipv4 10 10 0 61) (ipv4 10 10 0 62)]"
  by (simp_all add: linksAt_def fatTreeChannels_def
        del: One_nat_def)

lemma fatTreeWorld_sel:
  "channels fatTreeWorld = fatTreeChannels"
  "staticRouting fatTreeWorld = fatTreeRouting"
  "interfaces fatTreeWorld = fatTreeInterfaces"
  by (simp_all add: fatTreeWorld_def)

lemmas route_defs = serverRoutes_def accessRoutes_def aggrRoutes_def aggrDownRoutes_def
  aggrUpRoutes_def coreRoutes_def otherPodRoutes_def GetAddress_def GetInterfaceForAddress_def
  nodeAddresses_def nodeLinks_def localAddr_def AddNetworkRouteTo_def SetDefaultRoute_def Let_def
  to_string.simps upt_small NUM_PODS_def fatTreeInterfaces_lookup linksAt_fatTree

text \<open>Part 5 on that state: no lookup fails, and the tables are those of \<open>fatTreeRouting\<close>.\<close>

lemma configureRouting_K:
  "configureRouting K (fatTreeWorld\<lparr>interfaces := m ++ fatTreeInterfaces, staticRouting := (\<lambda>n. [])\<rparr>)
     = Inr (fatTreeWorld\<lparr>interfaces := m ++ fatTreeInterfaces\<rparr>)"
  by (simp add: K_def configureRouting_def route_defs fatTreeWorld_def fatTreeRouting_def ipv4_def
        del: One_nat_def)

lemma fatTreeFrom_K:
  "fatTreeFrom K (emptyWorld h\<lparr>interfaces := m\<rparr>)
     = Inr (fatTreeWorld\<lparr>interfaces := m ++ fatTreeInterfaces\<rparr>)"
  by (simp only: fatTreeFrom_def buildTopology_K configureRouting_K)

lemma fatTree_K: "fatTree K h = Inr fatTreeWorld"
proof -
  have "emptyWorld h = emptyWorld h\<lparr>interfaces := Map.empty\<rparr>"
    by (simp add: emptyWorld_def)
  then have "fatTree K h = Inr (fatTreeWorld\<lparr>interfaces := Map.empty ++ fatTreeInterfaces\<rparr>)"
    unfolding fatTree_def using fatTreeFrom_K [where h = h and m = Map.empty] by simp
  then show ?thesis
    by (simp add: fatTreeWorld_def)
qed

lemma staticRouting_fatTree:
  "fatTreeRouting (PodNode 0 0) =
     [rt 0 0 (ipv4 10 0 0 2) 1]"
  "fatTreeRouting (PodNode 0 1) =
     [rt 0 0 (ipv4 10 0 0 6) 1]"
  "fatTreeRouting (PodNode 0 2) =
     [rt 0 0 (ipv4 10 0 1 10) 1]"
  "fatTreeRouting (PodNode 0 3) =
     [rt 0 0 (ipv4 10 0 1 14) 1]"
  "fatTreeRouting (PodNode 0 4) =
     [rt (ipv4 10 0 1 0) mask24 (ipv4 10 0 2 18) 3,
      rt (ipv4 10 1 0 0) mask16 (ipv4 10 0 2 18) 3,
      rt (ipv4 10 2 0 0) mask16 (ipv4 10 0 2 18) 3,
      rt (ipv4 10 3 0 0) mask16 (ipv4 10 0 2 18) 3]"
  "fatTreeRouting (PodNode 0 5) =
     [rt (ipv4 10 0 0 0) mask24 (ipv4 10 0 2 26) 3,
      rt (ipv4 10 1 0 0) mask16 (ipv4 10 0 2 26) 3,
      rt (ipv4 10 2 0 0) mask16 (ipv4 10 0 2 26) 3,
      rt (ipv4 10 3 0 0) mask16 (ipv4 10 0 2 26) 3]"
  "fatTreeRouting (PodNode 0 6) =
     [rt (ipv4 10 0 0 0) mask24 (ipv4 10 0 2 17) 1,
      rt (ipv4 10 0 1 0) mask24 (ipv4 10 0 2 25) 2,
      rt (ipv4 10 1 0 0) mask16 (ipv4 10 10 0 2) 3,
      rt (ipv4 10 2 0 0) mask16 (ipv4 10 10 0 2) 3,
      rt (ipv4 10 3 0 0) mask16 (ipv4 10 10 0 2) 3,
      rt (ipv4 10 1 0 0) mask16 (ipv4 10 10 0 18) 4,
      rt (ipv4 10 2 0 0) mask16 (ipv4 10 10 0 18) 4,
      rt (ipv4 10 3 0 0) mask16 (ipv4 10 10 0 18) 4]"
  "fatTreeRouting (PodNode 0 7) =
     [rt (ipv4 10 0 0 0) mask24 (ipv4 10 0 3 21) 1,
      rt (ipv4 10 0 1 0) mask24 (ipv4 10 0 3 29) 2,
      rt (ipv4 10 1 0 0) mask16 (ipv4 10 10 0 34) 3,
      rt (ipv4 10 2 0 0) mask16 (ipv4 10 10 0 34) 3,
      rt (ipv4 10 3 0 0) mask16 (ipv4 10 10 0 34) 3,
      rt (ipv4 10 1 0 0) mask16 (ipv4 10 10 0 50) 4,
      rt (ipv4 10 2 0 0) mask16 (ipv4 10 10 0 50) 4,
      rt (ipv4 10 3 0 0) mask16 (ipv4 10 10 0 50) 4]"
  "fatTreeRouting (PodNode 1 0) =
     [rt 0 0 (ipv4 10 1 0 2) 1]"
  "fatTreeRouting (PodNode 1 1) =
     [rt 0 0 (ipv4 10 1 0 6) 1]"
  "fatTreeRouting (PodNode 1 2) =
     [rt 0 0 (ipv4 10 1 1 10) 1]"
  "fatTreeRouting (PodNode 1 3) =
     [rt 0 0 (ipv4 10 1 1 14) 1]"
  "fatTreeRouting (PodNode 1 4) =
     [rt (ipv4 10 1 1 0) mask24 (ipv4 10 1 2 18) 3,
      rt (ipv4 10 0 0 0) mask16 (ipv4 10 1 2 18) 3,
      rt (ipv4 10 2 0 0) mask16 (ipv4 10 1 2 18) 3,
      rt (ipv4 10 3 0 0) mask16 (ipv4 10 1 2 18) 3]"
  "fatTreeRouting (PodNode 1 5) =
     [rt (ipv4 10 1 0 0) mask24 (ipv4 10 1 2 26) 3,
      rt (ipv4 10 0 0 0) mask16 (ipv4 10 1 2 26) 3,
      rt (ipv4 10 2 0 0) mask16 (ipv4 10 1 2 26) 3,
      rt (ipv4 10 3 0 0) mask16 (ipv4 10 1 2 26) 3]"
  "fatTreeRouting (PodNode 1 6) =
     [rt (ipv4 10 1 0 0) mask24 (ipv4 10 1 2 17) 1,
      rt (ipv4 10 1 1 0) mask24 (ipv4 10 1 2 25) 2,
      rt (ipv4 10 0 0 0) mask16 (ipv4 10 10 0 6) 3,
      rt (ipv4 10 2 0 0) mask16 (ipv4 10 10 0 6) 3,
      rt (ipv4 10 3 0 0) mask16 (ipv4 10 10 0 6) 3,
      rt (ipv4 10 0 0 0) mask16 (ipv4 10 10 0 22) 4,
      rt (ipv4 10 2 0 0) mask16 (ipv4 10 10 0 22) 4,
      rt (ipv4 10 3 0 0) mask16 (ipv4 10 10 0 22) 4]"
  "fatTreeRouting (PodNode 1 7) =
     [rt (ipv4 10 1 0 0) mask24 (ipv4 10 1 3 21) 1,
      rt (ipv4 10 1 1 0) mask24 (ipv4 10 1 3 29) 2,
      rt (ipv4 10 0 0 0) mask16 (ipv4 10 10 0 38) 3,
      rt (ipv4 10 2 0 0) mask16 (ipv4 10 10 0 38) 3,
      rt (ipv4 10 3 0 0) mask16 (ipv4 10 10 0 38) 3,
      rt (ipv4 10 0 0 0) mask16 (ipv4 10 10 0 54) 4,
      rt (ipv4 10 2 0 0) mask16 (ipv4 10 10 0 54) 4,
      rt (ipv4 10 3 0 0) mask16 (ipv4 10 10 0 54) 4]"
  "fatTreeRouting (PodNode 2 0) =
     [rt 0 0 (ipv4 10 2 0 2) 1]"
  "fatTreeRouting (PodNode 2 1) =
     [rt 0 0 (ipv4 10 2 0 6) 1]"
  "fatTreeRouting (PodNode 2 2) =
     [rt 0 0 (ipv4 10 2 1 10) 1]"
  "fatTreeRouting (PodNode 2 3) =
     [rt 0 0 (ipv4 10 2 1 14) 1]"
  "fatTreeRouting (PodNode 2 4) =
     [rt (ipv4 10 2 1 0) mask24 (ipv4 10 2 2 18) 3,
      rt (ipv4 10 0 0 0) mask16 (ipv4 10 2 2 18) 3,
      rt (ipv4 10 1 0 0) mask16 (ipv4 10 2 2 18) 3,
      rt (ipv4 10 3 0 0) mask16 (ipv4 10 2 2 18) 3]"
  "fatTreeRouting (PodNode 2 5) =
     [rt (ipv4 10 2 0 0) mask24 (ipv4 10 2 2 26) 3,
      rt (ipv4 10 0 0 0) mask16 (ipv4 10 2 2 26) 3,
      rt (ipv4 10 1 0 0) mask16 (ipv4 10 2 2 26) 3,
      rt (ipv4 10 3 0 0) mask16 (ipv4 10 2 2 26) 3]"
  "fatTreeRouting (PodNode 2 6) =
     [rt (ipv4 10 2 0 0) mask24 (ipv4 10 2 2 17) 1,
      rt (ipv4 10 2 1 0) mask24 (ipv4 10 2 2 25) 2,
      rt (ipv4 10 0 0 0) mask16 (ipv4 10 10 0 10) 3,
      rt (ipv4 10 1 0 0) mask16 (ipv4 10 10 0 10) 3,
      rt (ipv4 10 3 0 0) mask16 (ipv4 10 10 0 10) 3,
      rt (ipv4 10 0 0 0) mask16 (ipv4 10 10 0 26) 4,
      rt (ipv4 10 1 0 0) mask16 (ipv4 10 10 0 26) 4,
      rt (ipv4 10 3 0 0) mask16 (ipv4 10 10 0 26) 4]"
  "fatTreeRouting (PodNode 2 7) =
     [rt (ipv4 10 2 0 0) mask24 (ipv4 10 2 3 21) 1,
      rt (ipv4 10 2 1 0) mask24 (ipv4 10 2 3 29) 2,
      rt (ipv4 10 0 0 0) mask16 (ipv4 10 10 0 42) 3,
      rt (ipv4 10 1 0 0) mask16 (ipv4 10 10 0 42) 3,
      rt (ipv4 10 3 0 0) mask16 (ipv4 10 10 0 42) 3,
      rt (ipv4 10 0 0 0) mask16 (ipv4 10 10 0 58) 4,
      rt (ipv4 10 1 0 0) mask16 (ipv4 10 10 0 58) 4,
      rt (ipv4 10 3 0 0) mask16 (ipv4 10 10 0 58) 4]"
  "fatTreeRouting (PodNode 3 0) =
     [rt 0 0 (ipv4 10 3 0 2) 1]"
  "fatTreeRouting (PodNode 3 1) =
     [rt 0 0 (ipv4 10 3 0 6) 1]"
  "fatTreeRouting (PodNode 3 2) =
     [rt 0 0 (ipv4 10 3 1 10) 1]"
  "fatTreeRouting (PodNode 3 3) =
     [rt 0 0 (ipv4 10 3 1 14) 1]"
  "fatTreeRouting (PodNode 3 4) =
     [rt (ipv4 10 3 1 0) mask24 (ipv4 10 3 2 18) 3,
      rt (ipv4 10 0 0 0) mask16 (ipv4 10 3 2 18) 3,
      rt (ipv4 10 1 0 0) mask16 (ipv4 10 3 2 18) 3,
      rt (ipv4 10 2 0 0) mask16 (ipv4 10 3 2 18) 3]"
  "fatTreeRouting (PodNode 3 5) =
     [rt (ipv4 10 3 0 0) mask24 (ipv4 10 3 2 26) 3,
      rt (ipv4 10 0 0 0) mask16 (ipv4 10 3 2 26) 3,
      rt (ipv4 10 1 0 0) mask16 (ipv4 10 3 2 26) 3,
      rt (ipv4 10 2 0 0) mask16 (ipv4 10 3 2 26) 3]"
  "fatTreeRouting (PodNode 3 6) =
     [rt (ipv4 10 3 0 0) mask24 (ipv4 10 3 2 17) 1,
      rt (ipv4 10 3 1 0) mask24 (ipv4 10 3 2 25) 2,
      rt (ipv4 10 0 0 0) mask16 (ipv4 10 10 0 14) 3,
      rt (ipv4 10 1 0 0) mask16 (ipv4 10 10 0 14) 3,
      rt (ipv4 10 2 0 0) mask16 (ipv4 10 10 0 14) 3,
      rt (ipv4 10 0 0 0) mask16 (ipv4 10 10 0 30) 4,
      rt (ipv4 10 1 0 0) mask16 (ipv4 10 10 0 30) 4,
      rt (ipv4 10 2 0 0) mask16 (ipv4 10 10 0 30) 4]"
  "fatTreeRouting (PodNode 3 7) =
     [rt (ipv4 10 3 0 0) mask24 (ipv4 10 3 3 21) 1,
      rt (ipv4 10 3 1 0) mask24 (ipv4 10 3 3 29) 2,
      rt (ipv4 10 0 0 0) mask16 (ipv4 10 10 0 46) 3,
      rt (ipv4 10 1 0 0) mask16 (ipv4 10 10 0 46) 3,
      rt (ipv4 10 2 0 0) mask16 (ipv4 10 10 0 46) 3,
      rt (ipv4 10 0 0 0) mask16 (ipv4 10 10 0 62) 4,
      rt (ipv4 10 1 0 0) mask16 (ipv4 10 10 0 62) 4,
      rt (ipv4 10 2 0 0) mask16 (ipv4 10 10 0 62) 4]"
  "fatTreeRouting (CoreNode 0) =
     [rt (ipv4 10 0 0 0) mask16 (ipv4 10 10 0 1) 1,
      rt (ipv4 10 1 0 0) mask16 (ipv4 10 10 0 5) 2,
      rt (ipv4 10 2 0 0) mask16 (ipv4 10 10 0 9) 3,
      rt (ipv4 10 3 0 0) mask16 (ipv4 10 10 0 13) 4]"
  "fatTreeRouting (CoreNode 1) =
     [rt (ipv4 10 0 0 0) mask16 (ipv4 10 10 0 17) 1,
      rt (ipv4 10 1 0 0) mask16 (ipv4 10 10 0 21) 2,
      rt (ipv4 10 2 0 0) mask16 (ipv4 10 10 0 25) 3,
      rt (ipv4 10 3 0 0) mask16 (ipv4 10 10 0 29) 4]"
  "fatTreeRouting (CoreNode 2) =
     [rt (ipv4 10 0 0 0) mask16 (ipv4 10 10 0 33) 1,
      rt (ipv4 10 1 0 0) mask16 (ipv4 10 10 0 37) 2,
      rt (ipv4 10 2 0 0) mask16 (ipv4 10 10 0 41) 3,
      rt (ipv4 10 3 0 0) mask16 (ipv4 10 10 0 45) 4]"
  "fatTreeRouting (CoreNode 3) =
     [rt (ipv4 10 0 0 0) mask16 (ipv4 10 10 0 49) 1,
      rt (ipv4 10 1 0 0) mask16 (ipv4 10 10 0 53) 2,
      rt (ipv4 10 2 0 0) mask16 (ipv4 10 10 0 57) 3,
      rt (ipv4 10 3 0 0) mask16 (ipv4 10 10 0 61) 4]"
  by (simp_all add: fatTreeRouting_def del: One_nat_def)

lemma routingTable_fatTree:
  "routingTable fatTreeWorld (PodNode 0 0) =
     [rt (ipv4 10 0 0 0) mask30 0 1,
      rt 0 0 (ipv4 10 0 0 2) 1]"
  "routingTable fatTreeWorld (PodNode 0 1) =
     [rt (ipv4 10 0 0 4) mask30 0 1,
      rt 0 0 (ipv4 10 0 0 6) 1]"
  "routingTable fatTreeWorld (PodNode 0 2) =
     [rt (ipv4 10 0 1 8) mask30 0 1,
      rt 0 0 (ipv4 10 0 1 10) 1]"
  "routingTable fatTreeWorld (PodNode 0 3) =
     [rt (ipv4 10 0 1 12) mask30 0 1,
      rt 0 0 (ipv4 10 0 1 14) 1]"
  "routingTable fatTreeWorld (PodNode 0 4) =
     [rt (ipv4 10 0 0 0) mask30 0 1,
      rt (ipv4 10 0 0 4) mask30 0 2,
      rt (ipv4 10 0 2 16) mask30 0 3,
      rt (ipv4 10 0 3 20) mask30 0 4,
      rt (ipv4 10 0 1 0) mask24 (ipv4 10 0 2 18) 3,
      rt (ipv4 10 1 0 0) mask16 (ipv4 10 0 2 18) 3,
      rt (ipv4 10 2 0 0) mask16 (ipv4 10 0 2 18) 3,
      rt (ipv4 10 3 0 0) mask16 (ipv4 10 0 2 18) 3]"
  "routingTable fatTreeWorld (PodNode 0 5) =
     [rt (ipv4 10 0 1 8) mask30 0 1,
      rt (ipv4 10 0 1 12) mask30 0 2,
      rt (ipv4 10 0 2 24) mask30 0 3,
      rt (ipv4 10 0 3 28) mask30 0 4,
      rt (ipv4 10 0 0 0) mask24 (ipv4 10 0 2 26) 3,
      rt (ipv4 10 1 0 0) mask16 (ipv4 10 0 2 26) 3,
      rt (ipv4 10 2 0 0) mask16 (ipv4 10 0 2 26) 3,
      rt (ipv4 10 3 0 0) mask16 (ipv4 10 0 2 26) 3]"
  "routingTable fatTreeWorld (PodNode 0 6) =
     [rt (ipv4 10 0 2 16) mask30 0 1,
      rt (ipv4 10 0 2 24) mask30 0 2,
      rt (ipv4 10 10 0 0) mask30 0 3,
      rt (ipv4 10 10 0 16) mask30 0 4,
      rt (ipv4 10 0 0 0) mask24 (ipv4 10 0 2 17) 1,
      rt (ipv4 10 0 1 0) mask24 (ipv4 10 0 2 25) 2,
      rt (ipv4 10 1 0 0) mask16 (ipv4 10 10 0 2) 3,
      rt (ipv4 10 2 0 0) mask16 (ipv4 10 10 0 2) 3,
      rt (ipv4 10 3 0 0) mask16 (ipv4 10 10 0 2) 3,
      rt (ipv4 10 1 0 0) mask16 (ipv4 10 10 0 18) 4,
      rt (ipv4 10 2 0 0) mask16 (ipv4 10 10 0 18) 4,
      rt (ipv4 10 3 0 0) mask16 (ipv4 10 10 0 18) 4]"
  "routingTable fatTreeWorld (PodNode 0 7) =
     [rt (ipv4 10 0 3 20) mask30 0 1,
      rt (ipv4 10 0 3 28) mask30 0 2,
      rt (ipv4 10 10 0 32) mask30 0 3,
      rt (ipv4 10 10 0 48) mask30 0 4,
      rt (ipv4 10 0 0 0) mask24 (ipv4 10 0 3 21) 1,
      rt (ipv4 10 0 1 0) mask24 (ipv4 10 0 3 29) 2,
      rt (ipv4 10 1 0 0) mask16 (ipv4 10 10 0 34) 3,
      rt (ipv4 10 2 0 0) mask16 (ipv4 10 10 0 34) 3,
      rt (ipv4 10 3 0 0) mask16 (ipv4 10 10 0 34) 3,
      rt (ipv4 10 1 0 0) mask16 (ipv4 10 10 0 50) 4,
      rt (ipv4 10 2 0 0) mask16 (ipv4 10 10 0 50) 4,
      rt (ipv4 10 3 0 0) mask16 (ipv4 10 10 0 50) 4]"
  "routingTable fatTreeWorld (PodNode 1 0) =
     [rt (ipv4 10 1 0 0) mask30 0 1,
      rt 0 0 (ipv4 10 1 0 2) 1]"
  "routingTable fatTreeWorld (PodNode 1 1) =
     [rt (ipv4 10 1 0 4) mask30 0 1,
      rt 0 0 (ipv4 10 1 0 6) 1]"
  "routingTable fatTreeWorld (PodNode 1 2) =
     [rt (ipv4 10 1 1 8) mask30 0 1,
      rt 0 0 (ipv4 10 1 1 10) 1]"
  "routingTable fatTreeWorld (PodNode 1 3) =
     [rt (ipv4 10 1 1 12) mask30 0 1,
      rt 0 0 (ipv4 10 1 1 14) 1]"
  "routingTable fatTreeWorld (PodNode 1 4) =
     [rt (ipv4 10 1 0 0) mask30 0 1,
      rt (ipv4 10 1 0 4) mask30 0 2,
      rt (ipv4 10 1 2 16) mask30 0 3,
      rt (ipv4 10 1 3 20) mask30 0 4,
      rt (ipv4 10 1 1 0) mask24 (ipv4 10 1 2 18) 3,
      rt (ipv4 10 0 0 0) mask16 (ipv4 10 1 2 18) 3,
      rt (ipv4 10 2 0 0) mask16 (ipv4 10 1 2 18) 3,
      rt (ipv4 10 3 0 0) mask16 (ipv4 10 1 2 18) 3]"
  "routingTable fatTreeWorld (PodNode 1 5) =
     [rt (ipv4 10 1 1 8) mask30 0 1,
      rt (ipv4 10 1 1 12) mask30 0 2,
      rt (ipv4 10 1 2 24) mask30 0 3,
      rt (ipv4 10 1 3 28) mask30 0 4,
      rt (ipv4 10 1 0 0) mask24 (ipv4 10 1 2 26) 3,
      rt (ipv4 10 0 0 0) mask16 (ipv4 10 1 2 26) 3,
      rt (ipv4 10 2 0 0) mask16 (ipv4 10 1 2 26) 3,
      rt (ipv4 10 3 0 0) mask16 (ipv4 10 1 2 26) 3]"
  "routingTable fatTreeWorld (PodNode 1 6) =
     [rt (ipv4 10 1 2 16) mask30 0 1,
      rt (ipv4 10 1 2 24) mask30 0 2,
      rt (ipv4 10 10 0 4) mask30 0 3,
      rt (ipv4 10 10 0 20) mask30 0 4,
      rt (ipv4 10 1 0 0) mask24 (ipv4 10 1 2 17) 1,
      rt (ipv4 10 1 1 0) mask24 (ipv4 10 1 2 25) 2,
      rt (ipv4 10 0 0 0) mask16 (ipv4 10 10 0 6) 3,
      rt (ipv4 10 2 0 0) mask16 (ipv4 10 10 0 6) 3,
      rt (ipv4 10 3 0 0) mask16 (ipv4 10 10 0 6) 3,
      rt (ipv4 10 0 0 0) mask16 (ipv4 10 10 0 22) 4,
      rt (ipv4 10 2 0 0) mask16 (ipv4 10 10 0 22) 4,
      rt (ipv4 10 3 0 0) mask16 (ipv4 10 10 0 22) 4]"
  "routingTable fatTreeWorld (PodNode 1 7) =
     [rt (ipv4 10 1 3 20) mask30 0 1,
      rt (ipv4 10 1 3 28) mask30 0 2,
      rt (ipv4 10 10 0 36) mask30 0 3,
      rt (ipv4 10 10 0 52) mask30 0 4,
      rt (ipv4 10 1 0 0) mask24 (ipv4 10 1 3 21) 1,
      rt (ipv4 10 1 1 0) mask24 (ipv4 10 1 3 29) 2,
      rt (ipv4 10 0 0 0) mask16 (ipv4 10 10 0 38) 3,
      rt (ipv4 10 2 0 0) mask16 (ipv4 10 10 0 38) 3,
      rt (ipv4 10 3 0 0) mask16 (ipv4 10 10 0 38) 3,
      rt (ipv4 10 0 0 0) mask16 (ipv4 10 10 0 54) 4,
      rt (ipv4 10 2 0 0) mask16 (ipv4 10 10 0 54) 4,
      rt (ipv4 10 3 0 0) mask16 (ipv4 10 10 0 54) 4]"
  "routingTable fatTreeWorld (PodNode 2 0) =
     [rt (ipv4 10 2 0 0) mask30 0 1,
      rt 0 0 (ipv4 10 2 0 2) 1]"
  "routingTable fatTreeWorld (PodNode 2 1) =
     [rt (ipv4 10 2 0 4) mask30 0 1,
      rt 0 0 (ipv4 10 2 0 6) 1]"
  "routingTable fatTreeWorld (PodNode 2 2) =
     [rt (ipv4 10 2 1 8) mask30 0 1,
      rt 0 0 (ipv4 10 2 1 10) 1]"
  "routingTable fatTreeWorld (PodNode 2 3) =
     [rt (ipv4 10 2 1 12) mask30 0 1,
      rt 0 0 (ipv4 10 2 1 14) 1]"
  "routingTable fatTreeWorld (PodNode 2 4) =
     [rt (ipv4 10 2 0 0) mask30 0 1,
      rt (ipv4 10 2 0 4) mask30 0 2,
      rt (ipv4 10 2 2 16) mask30 0 3,
      rt (ipv4 10 2 3 20) mask30 0 4,
      rt (ipv4 10 2 1 0) mask24 (ipv4 10 2 2 18) 3,
      rt (ipv4 10 0 0 0) mask16 (ipv4 10 2 2 18) 3,
      rt (ipv4 10 1 0 0) mask16 (ipv4 10 2 2 18) 3,
      rt (ipv4 10 3 0 0) mask16 (ipv4 10 2 2 18) 3]"
  "routingTable fatTreeWorld (PodNode 2 5) =
     [rt (ipv4 10 2 1 8) mask30 0 1,
      rt (ipv4 10 2 1 12) mask30 0 2,
      rt (ipv4 10 2 2 24) mask30 0 3,
      rt (ipv4 10 2 3 28) mask30 0 4,
      rt (ipv4 10 2 0 0) mask24 (ipv4 10 2 2 26) 3,
      rt (ipv4 10 0 0 0) mask16 (ipv4 10 2 2 26) 3,
      rt (ipv4 10 1 0 0) mask16 (ipv4 10 2 2 26) 3,
      rt (ipv4 10 3 0 0) mask16 (ipv4 10 2 2 26) 3]"
  "routingTable fatTreeWorld (PodNode 2 6) =
     [rt (ipv4 10 2 2 16) mask30 0 1,
      rt (ipv4 10 2 2 24) mask30 0 2,
      rt (ipv4 10 10 0 8) mask30 0 3,
      rt (ipv4 10 10 0 24) mask30 0 4,
      rt (ipv4 10 2 0 0) mask24 (ipv4 10 2 2 17) 1,
      rt (ipv4 10 2 1 0) mask24 (ipv4 10 2 2 25) 2,
      rt (ipv4 10 0 0 0) mask16 (ipv4 10 10 0 10) 3,
      rt (ipv4 10 1 0 0) mask16 (ipv4 10 10 0 10) 3,
      rt (ipv4 10 3 0 0) mask16 (ipv4 10 10 0 10) 3,
      rt (ipv4 10 0 0 0) mask16 (ipv4 10 10 0 26) 4,
      rt (ipv4 10 1 0 0) mask16 (ipv4 10 10 0 26) 4,
      rt (ipv4 10 3 0 0) mask16 (ipv4 10 10 0 26) 4]"
  "routingTable fatTreeWorld (PodNode 2 7) =
     [rt (ipv4 10 2 3 20) mask30 0 1,
      rt (ipv4 10 2 3 28) mask30 0 2,
      rt (ipv4 10 10 0 40) mask30 0 3,
      rt (ipv4 10 10 0 56) mask30 0 4,
      rt (ipv4 10 2 0 0) mask24 (ipv4 10 2 3 21) 1,
      rt (ipv4 10 2 1 0) mask24 (ipv4 10 2 3 29) 2,
      rt (ipv4 10 0 0 0) mask16 (ipv4 10 10 0 42) 3,
      rt (ipv4 10 1 0 0) mask16 (ipv4 10 10 0 42) 3,
      rt (ipv4 10 3 0 0) mask16 (ipv4 10 10 0 42) 3,
      rt (ipv4 10 0 0 0) mask16 (ipv4 10 10 0 58) 4,
      rt (ipv4 10 1 0 0) mask16 (ipv4 10 10 0 58) 4,
      rt (ipv4 10 3 0 0) mask16 (ipv4 10 10 0 58) 4]"
  "routingTable fatTreeWorld (PodNode 3 0) =
     [rt (ipv4 10 3 0 0) mask30 0 1,
      rt 0 0 (ipv4 10 3 0 2) 1]"
  "routingTable fatTreeWorld (PodNode 3 1) =
     [rt (ipv4 10 3 0 4) mask30 0 1,
      rt 0 0 (ipv4 10 3 0 6) 1]"
  "routingTable fatTreeWorld (PodNode 3 2) =
     [rt (ipv4 10 3 1 8) mask30 0 1,
      rt 0 0 (ipv4 10 3 1 10) 1]"
  "routingTable fatTreeWorld (PodNode 3 3) =
     [rt (ipv4 10 3 1 12) mask30 0 1,
      rt 0 0 (ipv4 10 3 1 14) 1]"
  "routingTable fatTreeWorld (PodNode 3 4) =
     [rt (ipv4 10 3 0 0) mask30 0 1,
      rt (ipv4 10 3 0 4) mask30 0 2,
      rt (ipv4 10 3 2 16) mask30 0 3,
      rt (ipv4 10 3 3 20) mask30 0 4,
      rt (ipv4 10 3 1 0) mask24 (ipv4 10 3 2 18) 3,
      rt (ipv4 10 0 0 0) mask16 (ipv4 10 3 2 18) 3,
      rt (ipv4 10 1 0 0) mask16 (ipv4 10 3 2 18) 3,
      rt (ipv4 10 2 0 0) mask16 (ipv4 10 3 2 18) 3]"
  "routingTable fatTreeWorld (PodNode 3 5) =
     [rt (ipv4 10 3 1 8) mask30 0 1,
      rt (ipv4 10 3 1 12) mask30 0 2,
      rt (ipv4 10 3 2 24) mask30 0 3,
      rt (ipv4 10 3 3 28) mask30 0 4,
      rt (ipv4 10 3 0 0) mask24 (ipv4 10 3 2 26) 3,
      rt (ipv4 10 0 0 0) mask16 (ipv4 10 3 2 26) 3,
      rt (ipv4 10 1 0 0) mask16 (ipv4 10 3 2 26) 3,
      rt (ipv4 10 2 0 0) mask16 (ipv4 10 3 2 26) 3]"
  "routingTable fatTreeWorld (PodNode 3 6) =
     [rt (ipv4 10 3 2 16) mask30 0 1,
      rt (ipv4 10 3 2 24) mask30 0 2,
      rt (ipv4 10 10 0 12) mask30 0 3,
      rt (ipv4 10 10 0 28) mask30 0 4,
      rt (ipv4 10 3 0 0) mask24 (ipv4 10 3 2 17) 1,
      rt (ipv4 10 3 1 0) mask24 (ipv4 10 3 2 25) 2,
      rt (ipv4 10 0 0 0) mask16 (ipv4 10 10 0 14) 3,
      rt (ipv4 10 1 0 0) mask16 (ipv4 10 10 0 14) 3,
      rt (ipv4 10 2 0 0) mask16 (ipv4 10 10 0 14) 3,
      rt (ipv4 10 0 0 0) mask16 (ipv4 10 10 0 30) 4,
      rt (ipv4 10 1 0 0) mask16 (ipv4 10 10 0 30) 4,
      rt (ipv4 10 2 0 0) mask16 (ipv4 10 10 0 30) 4]"
  "routingTable fatTreeWorld (PodNode 3 7) =
     [rt (ipv4 10 3 3 20) mask30 0 1,
      rt (ipv4 10 3 3 28) mask30 0 2,
      rt (ipv4 10 10 0 44) mask30 0 3,
      rt (ipv4 10 10 0 60) mask30 0 4,
      rt (ipv4 10 3 0 0) mask24 (ipv4 10 3 3 21) 1,
      rt (ipv4 10 3 1 0) mask24 (ipv4 10 3 3 29) 2,
      rt (ipv4 10 0 0 0) mask16 (ipv4 10 10 0 46) 3,
      rt (ipv4 10 1 0 0) mask16 (ipv4 10 10 0 46) 3,
      rt (ipv4 10 2 0 0) mask16 (ipv4 10 10 0 46) 3,
      rt (ipv4 10 0 0 0) mask16 (ipv4 10 10 0 62) 4,
      rt (ipv4 10 1 0 0) mask16 (ipv4 10 10 0 62) 4,
      rt (ipv4 10 2 0 0) mask16 (ipv4 10 10 0 62) 4]"
  "routingTable fatTreeWorld (CoreNode 0) =
     [rt (ipv4 10 10 0 0) mask30 0 1,
      rt (ipv4 10 10 0 4) mask30 0 2,
      rt (ipv4 10 10 0 8) mask30 0 3,
      rt (ipv4 10 10 0 12) mask30 0 4,
      rt (ipv4 10 0 0 0) mask16 (ipv4 10 10 0 1) 1,
      rt (ipv4 10 1 0 0) mask16 (ipv4 10 10 0 5) 2,
      rt (ipv4 10 2 0 0) mask16 (ipv4 10 10 0 9) 3,
      rt (ipv4 10 3 0 0) mask16 (ipv4 10 10 0 13) 4]"
  "routingTable fatTreeWorld (CoreNode 1) =
     [rt (ipv4 10 10 0 16) mask30 0 1,
      rt (ipv4 10 10 0 20) mask30 0 2,
      rt (ipv4 10 10 0 24) mask30 0 3,
      rt (ipv4 10 10 0 28) mask30 0 4,
      rt (ipv4 10 0 0 0) mask16 (ipv4 10 10 0 17) 1,
      rt (ipv4 10 1 0 0) mask16 (ipv4 10 10 0 21) 2,
      rt (ipv4 10 2 0 0) mask16 (ipv4 10 10 0 25) 3,
      rt (ipv4 10 3 0 0) mask16 (ipv4 10 10 0 29) 4]"
  "routingTable fatTreeWorld (CoreNode 2) =
     [rt (ipv4 10 10 0 32) mask30 0 1,
      rt (ipv4 10 10 0 36) mask30 0 2,
      rt (ipv4 10 10 0 40) mask30 0 3,
      rt (ipv4 10 10 0 44) mask30 0 4,
      rt (ipv4 10 0 0 0) mask16 (ipv4 10 10 0 33) 1,
      rt (ipv4 10 1 0 0) mask16 (ipv4 10 10 0 37) 2,
      rt (ipv4 10 2 0 0) mask16 (ipv4 10 10 0 41) 3,
      rt (ipv4 10 3 0 0) mask16 (ipv4 10 10 0 45) 4]"
  "routingTable fatTreeWorld (CoreNode 3) =
     [rt (ipv4 10 10 0 48) mask30 0 1,
      rt (ipv4 10 10 0 52) mask30 0 2,
      rt (ipv4 10 10 0 56) mask30 0 3,
      rt (ipv4 10 10 0 60) mask30 0 4,
      rt (ipv4 10 0 0 0) mask16 (ipv4 10 10 0 49) 1,
      rt (ipv4 10 1 0 0) mask16 (ipv4 10 10 0 53) 2,
      rt (ipv4 10 2 0 0) mask16 (ipv4 10 10 0 57) 3,
      rt (ipv4 10 3 0 0) mask16 (ipv4 10 10 0 61) 4]"
  by (simp_all add: routingTable_def connectedRoutes_def nodeLinks_def linksAt_fatTree localAddr_def
        fatTreeWorld_sel staticRouting_fatTree ipv4_def mask30_def del: One_nat_def)

lemma nodeAddresses_fatTree:
  "nodeAddresses fatTreeWorld (PodNode 0 0) = [ipv4 127 0 0 1, ipv4 10 0 0 1]"
  "nodeAddresses fatTreeWorld (PodNode 0 1) = [ipv4 127 0 0 1, ipv4 10 0 0 5]"
  "nodeAddresses fatTreeWorld (PodNode 0 2) = [ipv4 127 0 0 1, ipv4 10 0 1 9]"
  "nodeAddresses fatTreeWorld (PodNode 0 3) = [ipv4 127 0 0 1, ipv4 10 0 1 13]"
  "nodeAddresses fatTreeWorld (PodNode 0 4) = [ipv4 127 0 0 1, ipv4 10 0 0 2, ipv4 10 0 0 6, ipv4 10 0 2 17, ipv4 10 0 3 21]"
  "nodeAddresses fatTreeWorld (PodNode 0 5) = [ipv4 127 0 0 1, ipv4 10 0 1 10, ipv4 10 0 1 14, ipv4 10 0 2 25, ipv4 10 0 3 29]"
  "nodeAddresses fatTreeWorld (PodNode 0 6) = [ipv4 127 0 0 1, ipv4 10 0 2 18, ipv4 10 0 2 26, ipv4 10 10 0 1, ipv4 10 10 0 17]"
  "nodeAddresses fatTreeWorld (PodNode 0 7) = [ipv4 127 0 0 1, ipv4 10 0 3 22, ipv4 10 0 3 30, ipv4 10 10 0 33, ipv4 10 10 0 49]"
  "nodeAddresses fatTreeWorld (PodNode 1 0) = [ipv4 127 0 0 1, ipv4 10 1 0 1]"
  "nodeAddresses fatTreeWorld (PodNode 1 1) = [ipv4 127 0 0 1, ipv4 10 1 0 5]"
  "nodeAddresses fatTreeWorld (PodNode 1 2) = [ipv4 127 0 0 1, ipv4 10 1 1 9]"
  "nodeAddresses fatTreeWorld (PodNode 1 3) = [ipv4 127 0 0 1, ipv4 10 1 1 13]"
  "nodeAddresses fatTreeWorld (PodNode 1 4) = [ipv4 127 0 0 1, ipv4 10 1 0 2, ipv4 10 1 0 6, ipv4 10 1 2 17, ipv4 10 1 3 21]"
  "nodeAddresses fatTreeWorld (PodNode 1 5) = [ipv4 127 0 0 1, ipv4 10 1 1 10, ipv4 10 1 1 14, ipv4 10 1 2 25, ipv4 10 1 3 29]"
  "nodeAddresses fatTreeWorld (PodNode 1 6) = [ipv4 127 0 0 1, ipv4 10 1 2 18, ipv4 10 1 2 26, ipv4 10 10 0 5, ipv4 10 10 0 21]"
  "nodeAddresses fatTreeWorld (PodNode 1 7) = [ipv4 127 0 0 1, ipv4 10 1 3 22, ipv4 10 1 3 30, ipv4 10 10 0 37, ipv4 10 10 0 53]"
  "nodeAddresses fatTreeWorld (PodNode 2 0) = [ipv4 127 0 0 1, ipv4 10 2 0 1]"
  "nodeAddresses fatTreeWorld (PodNode 2 1) = [ipv4 127 0 0 1, ipv4 10 2 0 5]"
  "nodeAddresses fatTreeWorld (PodNode 2 2) = [ipv4 127 0 0 1, ipv4 10 2 1 9]"
  "nodeAddresses fatTreeWorld (PodNode 2 3) = [ipv4 127 0 0 1, ipv4 10 2 1 13]"
  "nodeAddresses fatTreeWorld (PodNode 2 4) = [ipv4 127 0 0 1, ipv4 10 2 0 2, ipv4 10 2 0 6, ipv4 10 2 2 17, ipv4 10 2 3 21]"
  "nodeAddresses fatTreeWorld (PodNode 2 5) = [ipv4 127 0 0 1, ipv4 10 2 1 10, ipv4 10 2 1 14, ipv4 10 2 2 25, ipv4 10 2 3 29]"
  "nodeAddresses fatTreeWorld (PodNode 2 6) = [ipv4 127 0 0 1, ipv4 10 2 2 18, ipv4 10 2 2 26, ipv4 10 10 0 9, ipv4 10 10 0 25]"
  "nodeAddresses fatTreeWorld (PodNode 2 7) = [ipv4 127 0 0 1, ipv4 10 2 3 22, ipv4 10 2 3 30, ipv4 10 10 0 41, ipv4 10 10 0 57]"
  "nodeAddresses fatTreeWorld (PodNode 3 0) = [ipv4 127 0 0 1, ipv4 10 3 0 1]"
  "nodeAddresses fatTreeWorld (PodNode 3 1) = [ipv4 127 0 0 1, ipv4 10 3 0 5]"
  "nodeAddresses fatTreeWorld (PodNode 3 2) = [ipv4 127 0 0 1, ipv4 10 3 1 9]"
  "nodeAddresses fatTreeWorld (PodNode 3 3) = [ipv4 127 0 0 1, ipv4 10 3 1 13]"
  "nodeAddresses fatTreeWorld (PodNode 3 4) = [ipv4 127 0 0 1, ipv4 10 3 0 2, ipv4 10 3 0 6, ipv4 10 3 2 17, ipv4 10 3 3 21]"
  "nodeAddresses fatTreeWorld (PodNode 3 5) = [ipv4 127 0 0 1, ipv4 10 3 1 10, ipv4 10 3 1 14, ipv4 10 3 2 25, ipv4 10 3 3 29]"
  "nodeAddresses fatTreeWorld (PodNode 3 6) = [ipv4 127 0 0 1, ipv4 10 3 2 18, ipv4 10 3 2 26, ipv4 10 10 0 13, ipv4 10 10 0 29]"
  "nodeAddresses fatTreeWorld (PodNode 3 7) = [ipv4 127 0 0 1, ipv4 10 3 3 22, ipv4 10 3 3 30, ipv4 10 10 0 45, ipv4 10 10 0 61]"
  "nodeAddresses fatTreeWorld (CoreNode 0) = [ipv4 127 0 0 1, ipv4 10 10 0 2, ipv4 10 10 0 6, ipv4 10 10 0 10, ipv4 10 10 0 14]"
  "nodeAddresses fatTreeWorld (CoreNode 1) = [ipv4 127 0 0 1, ipv4 10 10 0 18, ipv4 10 10 0 22, ipv4 10 10 0 26, ipv4 10 10 0 30]"
  "nodeAddresses fatTreeWorld (CoreNode 2) = [ipv4 127 0 0 1, ipv4 10 10 0 34, ipv4 10 10 0 38, ipv4 10 10 0 42, ipv4 10 10 0 46]"
  "nodeAddresses fatTreeWorld (CoreNode 3) = [ipv4 127 0 0 1, ipv4 10 10 0 50, ipv4 10 10 0 54, ipv4 10 10 0 58, ipv4 10 10 0 62]"
  by (simp_all add: nodeAddresses_def nodeLinks_def linksAt_fatTree localAddr_def fatTreeWorld_sel
        del: One_nat_def)

lemma shiftCount_numeral:
  "shiftCount (numeral n) m
     = (if m = 0 then 0 else Suc (shiftCount (pred_numeral n) (push_bit 1 m)))"
  by (simp add: numeral_eq_Suc)

lemma GetPrefixLength_masks:
  "GetPrefixLength mask30 = 30" "GetPrefixLength mask24 = 24" "GetPrefixLength mask16 = 16"
  "GetPrefixLength 0 = 0"
  "GetPrefixLength 4294967292 = 30" "GetPrefixLength 4294967040 = 24"
  "GetPrefixLength 4294901760 = 16"
  by (simp_all add: GetPrefixLength_def mask30_def mask24_def mask16_def ipv4_def shiftCount_numeral)

section \<open>Forwarding between servers\<close>

text \<open>
  What each tier does with a packet for a server, by running the lookup at every node of the
  tier for every server address.
\<close>

lemmas fwd_defs = nextNodes_def routingTable_fatTree longestMatches_def IsMatch_def
  GetPrefixLength_masks outLink_def nodeLinks_def linksAt_fatTree peer_def Let_def
  fatTreeWorld_sel serverAddr_def accessSwitchOf_def ipv4_def mask30_def mask24_def mask16_def

lemma server_addresses:
  assumes "q < 4" "t < 4"
  shows "nodeAddresses fatTreeWorld (PodNode q t) = [ipv4 127 0 0 1, serverAddr q t]"
  using assms unfolding nat_lt4
  apply (elim disjE)
  apply (simp_all add: nodeAddresses_fatTree serverAddr_def accessSwitchOf_def ipv4_def del: One_nat_def)
  done

lemma local_server:
  assumes "p < 4" "s < 4" "q < 4" "t < 4"
  shows "(serverAddr q t \<in> set (nodeAddresses fatTreeWorld (PodNode p s))) = (p = q \<and> s = t)"
  using assms unfolding nat_lt4
  apply (elim disjE)
  apply (simp_all add: nodeAddresses_fatTree serverAddr_def accessSwitchOf_def ipv4_def del: One_nat_def)
  done

lemma local_access:
  assumes "p < 4" "s < 4" "q < 4" "t < 4"
  shows "(serverAddr q t \<in> set (nodeAddresses fatTreeWorld (PodNode p (accessSwitchOf s)))) = False"
  using assms unfolding nat_lt4
  apply (elim disjE)
  apply (simp_all add: nodeAddresses_fatTree serverAddr_def accessSwitchOf_def ipv4_def del: One_nat_def)
  done

lemma local_aggr0:
  assumes "p < 4" "q < 4" "t < 4"
  shows "(serverAddr q t \<in> set (nodeAddresses fatTreeWorld (PodNode p 6))) = False"
  using assms unfolding nat_lt4
  apply (elim disjE)
  apply (simp_all add: nodeAddresses_fatTree serverAddr_def accessSwitchOf_def ipv4_def del: One_nat_def)
  done

lemma local_core:
  assumes "c < 2" "q < 4" "t < 4"
  shows "(serverAddr q t \<in> set (nodeAddresses fatTreeWorld (CoreNode c))) = False"
  using assms unfolding nat_lt4 nat_lt2
  apply (elim disjE)
  apply (simp_all add: nodeAddresses_fatTree serverAddr_def accessSwitchOf_def ipv4_def del: One_nat_def)
  done

lemma next_server:
  assumes "p < 4" "s < 4" "q < 4" "t < 4"
  shows "nextNodes fatTreeWorld (PodNode p s) (serverAddr q t) = [Some (PodNode p (accessSwitchOf s))]"
  using assms unfolding nat_lt4
  apply (elim disjE)
  apply (simp_all add: fwd_defs del: One_nat_def)
  done

lemma next_access:
  assumes "p < 4" "s < 4" "q < 4" "t < 4"
  shows "nextNodes fatTreeWorld (PodNode p (accessSwitchOf s)) (serverAddr q t) =
    (if q = p \<and> accessSwitchOf t = accessSwitchOf s then [Some (PodNode p t)]
     else [Some (PodNode p 6)])"
  using assms unfolding nat_lt4
  apply (elim disjE)
  apply (simp_all add: fwd_defs del: One_nat_def)
  done

lemma next_aggr0:
  assumes "p < 4" "q < 4" "t < 4"
  shows "nextNodes fatTreeWorld (PodNode p 6) (serverAddr q t) =
    (if q = p then [Some (PodNode p (accessSwitchOf t))]
     else [Some (CoreNode 0), Some (CoreNode 1)])"
  using assms unfolding nat_lt4
  apply (elim disjE)
  apply (simp_all add: fwd_defs del: One_nat_def)
  done

lemma next_core:
  assumes "c < 2" "q < 4" "t < 4"
  shows "nextNodes fatTreeWorld (CoreNode c) (serverAddr q t) = [Some (PodNode q 6)]"
  using assms unfolding nat_lt4 nat_lt2
  apply (elim disjE)
  apply (simp_all add: fwd_defs del: One_nat_def)
  done


lemma walks_numeral:
  "walks w (numeral k) n d =
     (if d \<in> set (nodeAddresses w n) then [([n], Delivered)]
      else case nextNodes w n d of
             [] \<Rightarrow> [([n], NoRoute)]
           | hops \<Rightarrow> concat (map (\<lambda>hop. case hop of
                           None \<Rightarrow> [([n], NoRoute)]
                         | Some m \<Rightarrow> map (\<lambda>(p, out). (n # p, out)) (walks w (pred_numeral k) m d)) hops))"
  by (simp add: numeral_eq_Suc)

lemmas walks_step = walks_numeral [where n = "PodNode p i"] walks_numeral [where n = "CoreNode c"]
  for p i c

lemma walk_same_access:
  assumes "p < 4" "s < 4" "t < 4" "s \<noteq> t" "accessSwitchOf s = accessSwitchOf t"
  shows "walks fatTreeWorld 64 (PodNode p s) (serverAddr p t)
           = [([PodNode p s, PodNode p (accessSwitchOf s), PodNode p t], Delivered)]"
  using assms
  by (simp add: walks_step local_server local_access next_server next_access del: walks.simps)

lemma walk_same_pod:
  assumes "p < 4" "s < 4" "t < 4" "accessSwitchOf s \<noteq> accessSwitchOf t"
  shows "walks fatTreeWorld 64 (PodNode p s) (serverAddr p t)
           = [([PodNode p s, PodNode p (accessSwitchOf s), PodNode p 6,
                PodNode p (accessSwitchOf t), PodNode p t], Delivered)]"
proof -
  have "s \<noteq> t" using assms by auto
  with assms show ?thesis
    by (simp add: walks_step local_server local_access local_aggr0 next_server next_access next_aggr0
          del: walks.simps)
qed

lemma walk_cross_pod:
  assumes "p < 4" "s < 4" "q < 4" "t < 4" "p \<noteq> q"
  shows "walks fatTreeWorld 64 (PodNode p s) (serverAddr q t)
           = [([PodNode p s, PodNode p (accessSwitchOf s), PodNode p 6, CoreNode 0,
                PodNode q 6, PodNode q (accessSwitchOf t), PodNode q t], Delivered),
              ([PodNode p s, PodNode p (accessSwitchOf s), PodNode p 6, CoreNode 1,
                PodNode q 6, PodNode q (accessSwitchOf t), PodNode q t], Delivered)]"
  using assms
  by (simp add: walks_step local_server local_access local_aggr0 local_core
        next_server next_access next_aggr0 next_core del: walks.simps One_nat_def)


lemma servers_K: "n \<in> set (servers K) \<longleftrightarrow> (\<exists>p<4. \<exists>s<4. n = PodNode p s)"
proof -
  have "set (servers K) = (\<Union>p\<in>{0..<4}. PodNode p ` {0..<4})"
    by (simp add: servers_def K_def NUM_PODS_def)
  then show ?thesis
    by (auto simp: image_iff)
qed

text \<open>
  Claim C1, as amended.  The program runs through and, over the tables it installs, a packet
  from any server to an address of any other server is delivered to that server by every
  choice among the longest matching entries; the journey visits no node twice and passes at
  most 1 switch when both servers hang off the same access switch (that access switch
  itself), at most 3 inside a pod and at most 5 across pods.
\<close>

theorem forwarding_reaches_destination:
  "\<exists>w. fatTree K h = Inr w \<and>
     (\<forall>src\<in>set (servers K). \<forall>dst\<in>set (servers K). src \<noteq> dst \<longrightarrow>
        (\<forall>d\<in>set (tl (nodeAddresses w dst)).
           walks w 64 src d \<noteq> [] \<and>
           (\<forall>(path, out)\<in>set (walks w 64 src d).
              out = Delivered \<and> hd path = src \<and> last path = dst \<and> distinct path
              \<and> switchesOn path \<le> maxSwitches src dst)))"
proof (rule exI [of _ fatTreeWorld], rule conjI, rule fatTree_K, intro ballI impI)
  fix src dst d
  assume src: "src \<in> set (servers K)" and dst: "dst \<in> set (servers K)" and ne: "src \<noteq> dst"
    and d: "d \<in> set (tl (nodeAddresses fatTreeWorld dst))"
  from src obtain p s where ps: "p < 4" "s < 4" "src = PodNode p s"
    unfolding servers_K by blast
  from dst obtain q t where qt: "q < 4" "t < 4" "dst = PodNode q t"
    unfolding servers_K by blast
  from d qt have dd: "d = serverAddr q t"
    by (simp add: server_addresses)
  have acc: "accessSwitchOf s \<noteq> s" "accessSwitchOf t \<noteq> t" "accessSwitchOf s \<noteq> 6"
    "accessSwitchOf t \<noteq> 6" "s \<noteq> 6" "t \<noteq> 6"
    using ps qt by (auto simp: accessSwitchOf_def)
  have cross: "accessSwitchOf s \<noteq> t" "accessSwitchOf t \<noteq> s"
    using ps qt by (auto simp: accessSwitchOf_def)
  consider (same_access) "p = q" "accessSwitchOf s = accessSwitchOf t"
    | (same_pod) "p = q" "accessSwitchOf s \<noteq> accessSwitchOf t"
    | (cross_pod) "p \<noteq> q"
    by blast
  then show "walks fatTreeWorld 64 src d \<noteq> [] \<and>
           (\<forall>(path, out)\<in>set (walks fatTreeWorld 64 src d).
              out = Delivered \<and> hd path = src \<and> last path = dst \<and> distinct path
              \<and> switchesOn path \<le> maxSwitches src dst)"
  proof cases
    case same_access
    with ne ps qt have "s \<noteq> t" by simp
    with same_access ps qt dd acc cross show ?thesis
      by (simp add: walk_same_access switchesOn_def maxSwitches_def del: walks.simps)
  next
    case same_pod
    then have "s \<noteq> t" by auto
    with same_pod ps qt dd acc cross show ?thesis
      by (simp add: walk_same_pod switchesOn_def maxSwitches_def del: walks.simps)
  next
    case cross_pod
    with ps qt dd acc cross show ?thesis
      by (simp add: walk_cross_pod switchesOn_def maxSwitches_def del: walks.simps)
  qed
qed

theorem forwarding_reaches_destination_witness:
  "PodNode 1 0 \<in> set (servers K) \<and> PodNode 0 0 \<in> set (servers K) \<and> PodNode 1 0 \<noteq> PodNode 0 0
   \<and> ipv4 10 0 0 1 \<in> set (tl (nodeAddresses fatTreeWorld (PodNode 0 0)))
   \<and> fatTree K initialHelper = Inr fatTreeWorld
   \<and> walks fatTreeWorld 64 (PodNode 1 0) (ipv4 10 0 0 1) \<noteq> []
   \<and> snd (hd (walks fatTreeWorld 64 (PodNode 1 0) (ipv4 10 0 0 1))) = Delivered
   \<and> hd (fst (hd (walks fatTreeWorld 64 (PodNode 1 0) (ipv4 10 0 0 1)))) = PodNode 1 0
   \<and> last (fst (hd (walks fatTreeWorld 64 (PodNode 1 0) (ipv4 10 0 0 1)))) = PodNode 0 0
   \<and> distinct (fst (hd (walks fatTreeWorld 64 (PodNode 1 0) (ipv4 10 0 0 1))))
   \<and> switchesOn (fst (hd (walks fatTreeWorld 64 (PodNode 1 0) (ipv4 10 0 0 1)))) \<le> 5"
proof -
  let ?ws = "walks fatTreeWorld 64 (PodNode 1 0) (ipv4 10 0 0 1)"
  have a: "PodNode 1 0 \<in> set (servers K)" and a': "PodNode 0 0 \<in> set (servers K)"
    by (simp_all add: servers_K)
  have b: "ipv4 10 0 0 1 \<in> set (tl (nodeAddresses fatTreeWorld (PodNode 0 0)))"
    by (simp add: nodeAddresses_fatTree)
  have c: "maxSwitches (PodNode 1 0) (PodNode 0 0) = 5"
    by (simp add: maxSwitches_def)
  have ne: "PodNode 1 0 \<noteq> PodNode 0 0"
    by simp
  from forwarding_reaches_destination [of initialHelper]
  obtain w where w: "fatTree K initialHelper = Inr w"
    and all: "\<forall>src\<in>set (servers K). \<forall>dst\<in>set (servers K). src \<noteq> dst \<longrightarrow>
        (\<forall>d\<in>set (tl (nodeAddresses w dst)).
           walks w 64 src d \<noteq> [] \<and>
           (\<forall>(path, out)\<in>set (walks w 64 src d).
              out = Delivered \<and> hd path = src \<and> last path = dst \<and> distinct path
              \<and> switchesOn path \<le> maxSwitches src dst))"
    by (elim exE conjE)
  from w have eq: "w = fatTreeWorld"
    by (simp add: fatTree_K)
  from all a a' ne b have nonempty: "?ws \<noteq> []"
    and each: "\<forall>(path, out)\<in>set ?ws.
              out = Delivered \<and> hd path = PodNode 1 0 \<and> last path = PodNode 0 0 \<and> distinct path
              \<and> switchesOn path \<le> maxSwitches (PodNode 1 0) (PodNode 0 0)"
    unfolding eq by blast+
  from nonempty have "hd ?ws \<in> set ?ws"
    by (rule hd_in_set)
  with each have "snd (hd ?ws) = Delivered \<and> hd (fst (hd ?ws)) = PodNode 1 0
      \<and> last (fst (hd ?ws)) = PodNode 0 0 \<and> distinct (fst (hd ?ws))
      \<and> switchesOn (fst (hd ?ws)) \<le> maxSwitches (PodNode 1 0) (PodNode 0 0)"
    by (auto simp: case_prod_beta simp del: walks.simps)
  with a a' ne b nonempty show ?thesis
    unfolding c by (simp add: fatTree_K del: walks.simps)
qed

text \<open>
  The bound of 0 switches for two servers on one access switch does not hold: from server 0
  to server 1 of pod 0 the only journey passes access switch 0.
\<close>

theorem shared_access_switch_counterexample:
  "fatTree K initialHelper = Inr fatTreeWorld
   \<and> PodNode 0 0 \<in> set (servers K) \<and> PodNode 0 1 \<in> set (servers K)
   \<and> accessSwitchOf 0 = accessSwitchOf 1
   \<and> tl (nodeAddresses fatTreeWorld (PodNode 0 1)) = [ipv4 10 0 0 5]
   \<and> walks fatTreeWorld 64 (PodNode 0 0) (ipv4 10 0 0 5)
        = [([PodNode 0 0, PodNode 0 4, PodNode 0 1], Delivered)]
   \<and> \<not> switchesOn [PodNode 0 0, PodNode 0 4, PodNode 0 1] \<le> 0"
proof -
  have "serverAddr 0 1 = ipv4 10 0 0 5"
    by (simp add: serverAddr_def accessSwitchOf_def ipv4_def)
  then have "walks fatTreeWorld 64 (PodNode 0 0) (ipv4 10 0 0 5)
        = [([PodNode 0 0, PodNode 0 4, PodNode 0 1], Delivered)]"
    using walk_same_access [of 0 0 1] by (simp add: accessSwitchOf_def del: walks.simps)
  then show ?thesis
    by (simp add: fatTree_K servers_K nodeAddresses_fatTree accessSwitchOf_def switchesOn_def
          del: walks.simps One_nat_def)
qed

section \<open>The address plan\<close>

lemma inSubnet30_subnet: "inSubnet30 a l \<Longrightarrow> a AND mask30 = subnet30 l"
  by (simp add: inSubnet30_def IsMatch_def subnet30_def and.assoc)

lemma upt_16: "[0..<16] = [0, 1, 2, 3, 4, 5, 6, 7, 8, 9, 10, 11, 12, 13, 14, 15]"
  by (simp add: upt_rec)

lemma fatTree_subnets:
  "map subnet30 fatTreeChannels =
     concat (map (\<lambda>pod.
        map (\<lambda>server. ipv4 10 pod (accessSwitchOf server - 4) (server * 4)) [0..<4]
        @ concat (map (\<lambda>lowerId. map (\<lambda>upperId.
             ipv4 10 pod (2 + upperId) (16 + (lowerId * 2 + upperId) * 4)) [0..<2]) [0..<2]))
       [0..<4])
     @ map (\<lambda>coreLink. ipv4 10 10 (coreLink div 64) ((coreLink mod 64) * 4)) [0..<16]"
  by (simp add: fatTreeChannels_def subnet30_def accessSwitchOf_def upt_small upt_16
        ipv4_def mask30_def del: One_nat_def)

lemma fatTree_subnets_distinct: "distinct (map subnet30 fatTreeChannels)"
  by (simp add: fatTreeChannels_def subnet30_def ipv4_def mask30_def)

lemma assigned_addresses_distinct:
  "distinct (concat (map (\<lambda>l. [addr0 l, addr1 l]) fatTreeChannels))"
  by (simp add: fatTreeChannels_def ipv4_def)

text \<open>
  Claim C3.  The /30 subnets of the links the program creates are, in creation order,
  10.pod.switchId.(server*4) for the server links and 10.pod.(2+upperId).(16+linkId*4) for the
  access-to-aggregation links of each pod, then 10.10.(coreLink/64).((coreLink mod 64)*4) for
  the core links; they are pairwise different, and no address lies in the subnets of two
  different links.
\<close>

theorem subnets_pairwise_disjoint:
  "\<exists>w. fatTree K h = Inr w
     \<and> map subnet30 (channels w) =
         concat (map (\<lambda>pod.
            map (\<lambda>server. ipv4 10 pod (accessSwitchOf server - 4) (server * 4)) [0..<4]
            @ concat (map (\<lambda>lowerId. map (\<lambda>upperId.
                 ipv4 10 pod (2 + upperId) (16 + (lowerId * 2 + upperId) * 4)) [0..<2]) [0..<2]))
           [0..<NUM_PODS K])
         @ map (\<lambda>coreLink. ipv4 10 10 (coreLink div 64) ((coreLink mod 64) * 4))
             [0..<NUM_CORE K * NUM_PODS K]
     \<and> distinct (map subnet30 (channels w))
     \<and> (\<forall>i<length (channels w). \<forall>j<length (channels w). i \<noteq> j \<longrightarrow>
           \<not> (\<exists>a. inSubnet30 a (channels w ! i) \<and> inSubnet30 a (channels w ! j)))"
proof (rule exI [of _ fatTreeWorld], intro conjI)
  show "fatTree K h = Inr fatTreeWorld"
    by (rule fatTree_K)
  show "map subnet30 (channels fatTreeWorld) =
         concat (map (\<lambda>pod.
            map (\<lambda>server. ipv4 10 pod (accessSwitchOf server - 4) (server * 4)) [0..<4]
            @ concat (map (\<lambda>lowerId. map (\<lambda>upperId.
                 ipv4 10 pod (2 + upperId) (16 + (lowerId * 2 + upperId) * 4)) [0..<2]) [0..<2]))
           [0..<NUM_PODS K])
         @ map (\<lambda>coreLink. ipv4 10 10 (coreLink div 64) ((coreLink mod 64) * 4))
             [0..<NUM_CORE K * NUM_PODS K]"
    using fatTree_subnets by (simp add: fatTreeWorld_sel K_def NUM_PODS_def NUM_CORE_def)
  show d: "distinct (map subnet30 (channels fatTreeWorld))"
    using fatTree_subnets_distinct by (simp add: fatTreeWorld_sel)
  show "\<forall>i<length (channels fatTreeWorld). \<forall>j<length (channels fatTreeWorld). i \<noteq> j \<longrightarrow>
           \<not> (\<exists>a. inSubnet30 a (channels fatTreeWorld ! i) \<and> inSubnet30 a (channels fatTreeWorld ! j))"
  proof (intro allI impI notI)
    fix i j
    assume i: "i < length (channels fatTreeWorld)" and j: "j < length (channels fatTreeWorld)"
      and ne: "i \<noteq> j"
      and ex: "\<exists>a. inSubnet30 a (channels fatTreeWorld ! i) \<and> inSubnet30 a (channels fatTreeWorld ! j)"
    then obtain a where "inSubnet30 a (channels fatTreeWorld ! i)"
      and "inSubnet30 a (channels fatTreeWorld ! j)"
      by blast
    then have "subnet30 (channels fatTreeWorld ! i) = subnet30 (channels fatTreeWorld ! j)"
      using inSubnet30_subnet by metis
    with i j have "map subnet30 (channels fatTreeWorld) ! i = map subnet30 (channels fatTreeWorld) ! j"
      by simp
    moreover from d i j ne
    have "map subnet30 (channels fatTreeWorld) ! i \<noteq> map subnet30 (channels fatTreeWorld) ! j"
      unfolding distinct_conv_nth by (simp del: nth_map)
    ultimately show False by simp
  qed
qed

theorem subnets_pairwise_disjoint_witness:
  "fatTree K initialHelper = Inr fatTreeWorld
   \<and> (0::nat) < length (channels fatTreeWorld) \<and> (1::nat) < length (channels fatTreeWorld)
   \<and> (0::nat) \<noteq> 1
   \<and> inSubnet30 (ipv4 10 0 0 1) (channels fatTreeWorld ! 0)
   \<and> \<not> inSubnet30 (ipv4 10 0 0 1) (channels fatTreeWorld ! 1)"
proof -
  from subnets_pairwise_disjoint [of initialHelper]
  obtain w where w: "fatTree K initialHelper = Inr w"
    and dis: "\<forall>i<length (channels w). \<forall>j<length (channels w). i \<noteq> j \<longrightarrow>
           \<not> (\<exists>a. inSubnet30 a (channels w ! i) \<and> inSubnet30 a (channels w ! j))"
    by (elim exE conjE)
  from w have eq: "w = fatTreeWorld"
    by (simp add: fatTree_K)
  have len: "(0::nat) < length (channels fatTreeWorld)" "(1::nat) < length (channels fatTreeWorld)"
    by (simp_all add: fatTreeWorld_sel fatTreeChannels_def)
  have a: "inSubnet30 (ipv4 10 0 0 1) (channels fatTreeWorld ! 0)"
    by (simp add: fatTreeWorld_sel fatTreeChannels_def inSubnet30_def subnet30_def IsMatch_def
          ipv4_def mask30_def)
  from dis [unfolded eq, rule_format, OF len(1) len(2)] a
  have "\<not> inSubnet30 (ipv4 10 0 0 1) (channels fatTreeWorld ! 1)"
    by auto
  with len a show ?thesis
    by (simp add: fatTree_K)
qed

section \<open>The tables tier by tier\<close>

lemma NUM_K: "NUM_PODS K = 4" "NUM_CORE K = 4"
  by (simp_all add: K_def NUM_PODS_def NUM_CORE_def)

lemmas table_defs = fatTreeWorld_sel staticRouting_fatTree nodeLinks_def linksAt_fatTree outLink_def
  peer_def localAddr_def entriesFor_def Let_def upt_small ipv4_def mask30_def mask24_def mask16_def

lemma core_table:
  assumes "c < 4" "pod < 4"
  shows "length (staticRouting fatTreeWorld (CoreNode c)) = 4
    \<and> (\<exists>l. filter (\<lambda>l. podOf (peer (CoreNode c) l) = pod) (nodeLinks fatTreeWorld (CoreNode c)) = [l]
          \<and> peer (CoreNode c) l = PodNode pod (6 + c div 2)
          \<and> staticRouting fatTreeWorld (CoreNode c) ! pod
               = rt (ipv4 10 pod 0 0) mask16 (localAddr (PodNode pod (6 + c div 2)) l) (int pod + 1)
          \<and> outLink fatTreeWorld (CoreNode c) (staticRouting fatTreeWorld (CoreNode c) ! pod) = Some l)"
  using assms unfolding nat_lt4
  apply (elim disjE)
  apply (simp_all add: table_defs del: One_nat_def)
  done

text \<open>
  Claim C5.  For K = 4 the table of every core switch has exactly 4 entries; the entry for
  pod \<open>pod\<close> is 10.pod.0.0/16, its next hop is the address, on the link to this core switch,
  of aggregation switch \<open>c div 2\<close> of that pod, which is the only neighbour of the core switch
  in that pod, and it leaves through the interface of that link.
\<close>

theorem core_switch_tables:
  "\<exists>w. fatTree K h = Inr w \<and>
     (\<forall>c<NUM_CORE K.
        length (staticRouting w (CoreNode c)) = 4
      \<and> (\<forall>pod<NUM_PODS K.
           \<exists>l. filter (\<lambda>l. podOf (peer (CoreNode c) l) = pod) (nodeLinks w (CoreNode c)) = [l]
             \<and> peer (CoreNode c) l = PodNode pod (6 + c div 2)
             \<and> staticRouting w (CoreNode c) ! pod
                  = rt (ipv4 10 pod 0 0) mask16 (localAddr (PodNode pod (6 + c div 2)) l) (int pod + 1)
             \<and> outLink w (CoreNode c) (staticRouting w (CoreNode c) ! pod) = Some l))"
proof (rule exI [of _ fatTreeWorld], rule conjI, rule fatTree_K, intro allI impI conjI)
  fix c assume "c < NUM_CORE K"
  then show "length (staticRouting fatTreeWorld (CoreNode c)) = 4"
    using core_table [of c 0] by (simp add: NUM_K)
next
  fix c pod assume "c < NUM_CORE K" "pod < NUM_PODS K"
  then show "\<exists>l. filter (\<lambda>l. podOf (peer (CoreNode c) l) = pod) (nodeLinks fatTreeWorld (CoreNode c)) = [l]
             \<and> peer (CoreNode c) l = PodNode pod (6 + c div 2)
             \<and> staticRouting fatTreeWorld (CoreNode c) ! pod
                  = rt (ipv4 10 pod 0 0) mask16 (localAddr (PodNode pod (6 + c div 2)) l) (int pod + 1)
             \<and> outLink fatTreeWorld (CoreNode c) (staticRouting fatTreeWorld (CoreNode c) ! pod) = Some l"
    using core_table [of c pod] by (simp add: NUM_K)
qed

theorem core_switch_tables_witness:
  "fatTree K initialHelper = Inr fatTreeWorld
   \<and> (3::nat) < NUM_CORE K \<and> (2::nat) < NUM_PODS K
   \<and> length (staticRouting fatTreeWorld (CoreNode 3)) = 4
   \<and> staticRouting fatTreeWorld (CoreNode 3) ! 2 = rt (ipv4 10 2 0 0) mask16 (ipv4 10 10 0 57) 3"
proof -
  from core_switch_tables [of initialHelper]
  obtain w where w: "fatTree K initialHelper = Inr w"
    and all: "\<forall>c<NUM_CORE K.
        length (staticRouting w (CoreNode c)) = 4
      \<and> (\<forall>pod<NUM_PODS K.
           \<exists>l. filter (\<lambda>l. podOf (peer (CoreNode c) l) = pod) (nodeLinks w (CoreNode c)) = [l]
             \<and> peer (CoreNode c) l = PodNode pod (6 + c div 2)
             \<and> staticRouting w (CoreNode c) ! pod
                  = rt (ipv4 10 pod 0 0) mask16 (localAddr (PodNode pod (6 + c div 2)) l) (int pod + 1)
             \<and> outLink w (CoreNode c) (staticRouting w (CoreNode c) ! pod) = Some l)"
    by (elim exE conjE)
  from w have eq: "w = fatTreeWorld"
    by (simp add: fatTree_K)
  have c: "(3::nat) < NUM_CORE K" and p: "(2::nat) < NUM_PODS K"
    by (simp_all add: NUM_K)
  from all [unfolded eq, rule_format, OF c]
  have len: "length (staticRouting fatTreeWorld (CoreNode 3)) = 4"
    by simp
  from all [unfolded eq, rule_format, OF c] p
  obtain l where
    l: "filter (\<lambda>l. podOf (peer (CoreNode 3) l) = 2) (nodeLinks fatTreeWorld (CoreNode 3)) = [l]"
    and r: "staticRouting fatTreeWorld (CoreNode 3) ! 2
              = rt (ipv4 10 2 0 0) mask16 (localAddr (PodNode 2 (6 + 3 div 2)) l) (int 2 + 1)"
    by blast
  from l have "l = lnk (PodNode 2 7) (CoreNode 3) (ipv4 10 10 0 57) (ipv4 10 10 0 58)"
    by (simp add: table_defs del: One_nat_def)
  with r have "staticRouting fatTreeWorld (CoreNode 3) ! 2 = rt (ipv4 10 2 0 0) mask16 (ipv4 10 10 0 57) 3"
    by (simp add: localAddr_def)
  with len c p show ?thesis
    by (simp add: fatTree_K)
qed

text \<open>
  Claim C6.  Server 0 of pod 0, the first server of access switch 0, has the address 10.0.0.1.
  In the table of access switch 1 of pod 0 the longest match for 10.0.0.1 is the single
  entry 10.0.0.0/24; its next hop 10.0.2.26 is an address of aggregation switch 0, which is
  cabled to both access switches, and that is where the packet goes.  No /30 entry of the
  table matches the address.
\<close>

theorem sibling_lookup_uses_aggregate:
  "\<exists>w. fatTree K h = Inr w
     \<and> nodeAddresses w (PodNode 0 0) = [ipv4 127 0 0 1, ipv4 10 0 0 1]
     \<and> peer (PodNode 0 0) (hd (nodeLinks w (PodNode 0 0))) = PodNode 0 4
     \<and> longestMatches (routingTable w (PodNode 0 5)) (ipv4 10 0 0 1)
          = [rt (ipv4 10 0 0 0) mask24 (ipv4 10 0 2 26) 3]
     \<and> ipv4 10 0 2 26 \<in> set (nodeAddresses w (PodNode 0 6))
     \<and> nextNodes w (PodNode 0 5) (ipv4 10 0 0 1) = [Some (PodNode 0 6)]
     \<and> map (peer (PodNode 0 6)) (take 2 (nodeLinks w (PodNode 0 6))) = [PodNode 0 4, PodNode 0 5]
     \<and> filter (\<lambda>r. destNetworkMask r = mask30 \<and> IsMatch mask30 (ipv4 10 0 0 1) (destNetwork r))
          (routingTable w (PodNode 0 5)) = []"
  by (rule exI [of _ fatTreeWorld])
     (simp add: fatTree_K nodeAddresses_fatTree routingTable_fatTree nextNodes_def longestMatches_def
        IsMatch_def GetPrefixLength_masks table_defs del: One_nat_def)

lemma access_table:
  assumes "pod < 4" "accessId < 2"
  shows "\<exists>up0 up1. drop 2 (nodeLinks fatTreeWorld (PodNode pod (4 + accessId))) = [up0, up1]
      \<and> peer (PodNode pod (4 + accessId)) up0 = PodNode pod 6
      \<and> peer (PodNode pod (4 + accessId)) up1 = PodNode pod 7
      \<and> map (\<lambda>r. (destNetwork r, destNetworkMask r)) (staticRouting fatTreeWorld (PodNode pod (4 + accessId)))
           = (ipv4 10 pod (if accessId = 0 then 1 else 0) 0, mask24)
             # map (\<lambda>otherPod. (ipv4 10 otherPod 0 0, mask16)) (filter (\<lambda>otherPod. otherPod \<noteq> pod) [0..<4])
      \<and> list_all (\<lambda>r. gateway r = localAddr (PodNode pod 6) up0
                      \<and> outLink fatTreeWorld (PodNode pod (4 + accessId)) r = Some up0
                      \<and> outLink fatTreeWorld (PodNode pod (4 + accessId)) r \<noteq> Some up1)
           (staticRouting fatTreeWorld (PodNode pod (4 + accessId)))"
  using assms unfolding nat_lt4 nat_lt2
  apply (elim disjE)
  apply (simp_all add: table_defs del: One_nat_def)
  done

text \<open>
  Claim C9.  An access switch has two uplinks, to aggregation switches 0 and 1 of its pod.
  Its installed entries are the /24 of the sibling access switch and the /16 of each of the
  three other pods, and every one of them has the address of aggregation switch 0 as next
  hop and leaves through the interface of the link to aggregation switch 0, never through
  the link to aggregation switch 1.
\<close>

theorem access_routes_use_first_uplink:
  "\<exists>w. fatTree K h = Inr w \<and>
     (\<forall>pod<NUM_PODS K. \<forall>accessId<2.
        \<exists>up0 up1. drop 2 (nodeLinks w (PodNode pod (4 + accessId))) = [up0, up1]
          \<and> peer (PodNode pod (4 + accessId)) up0 = PodNode pod 6
          \<and> peer (PodNode pod (4 + accessId)) up1 = PodNode pod 7
          \<and> map (\<lambda>r. (destNetwork r, destNetworkMask r)) (staticRouting w (PodNode pod (4 + accessId)))
               = (ipv4 10 pod (if accessId = 0 then 1 else 0) 0, mask24)
                 # map (\<lambda>otherPod. (ipv4 10 otherPod 0 0, mask16))
                     (filter (\<lambda>otherPod. otherPod \<noteq> pod) [0..<NUM_PODS K])
          \<and> list_all (\<lambda>r. gateway r = localAddr (PodNode pod 6) up0
                          \<and> outLink w (PodNode pod (4 + accessId)) r = Some up0
                          \<and> outLink w (PodNode pod (4 + accessId)) r \<noteq> Some up1)
               (staticRouting w (PodNode pod (4 + accessId))))"
  using access_table
  by (intro exI [of _ fatTreeWorld] conjI fatTree_K allI impI) (simp add: NUM_K)

theorem access_routes_use_first_uplink_witness:
  "fatTree K initialHelper = Inr fatTreeWorld \<and> (2::nat) < NUM_PODS K \<and> (1::nat) < 2
   \<and> map (peer (PodNode 2 5)) (drop 2 (nodeLinks fatTreeWorld (PodNode 2 5))) = [PodNode 2 6, PodNode 2 7]
   \<and> list_all (\<lambda>r. gateway r = ipv4 10 2 2 26
                  \<and> map_option (peer (PodNode 2 5)) (outLink fatTreeWorld (PodNode 2 5) r)
                      = Some (PodNode 2 6))
        (staticRouting fatTreeWorld (PodNode 2 5))"
proof -
  from access_routes_use_first_uplink [of initialHelper]
  obtain w where w: "fatTree K initialHelper = Inr w"
    and all: "\<forall>pod<NUM_PODS K. \<forall>accessId<2.
        \<exists>up0 up1. drop 2 (nodeLinks w (PodNode pod (4 + accessId))) = [up0, up1]
          \<and> peer (PodNode pod (4 + accessId)) up0 = PodNode pod 6
          \<and> peer (PodNode pod (4 + accessId)) up1 = PodNode pod 7
          \<and> map (\<lambda>r. (destNetwork r, destNetworkMask r)) (staticRouting w (PodNode pod (4 + accessId)))
               = (ipv4 10 pod (if accessId = 0 then 1 else 0) 0, mask24)
                 # map (\<lambda>otherPod. (ipv4 10 otherPod 0 0, mask16))
                     (filter (\<lambda>otherPod. otherPod \<noteq> pod) [0..<NUM_PODS K])
          \<and> list_all (\<lambda>r. gateway r = localAddr (PodNode pod 6) up0
                          \<and> outLink w (PodNode pod (4 + accessId)) r = Some up0
                          \<and> outLink w (PodNode pod (4 + accessId)) r \<noteq> Some up1)
               (staticRouting w (PodNode pod (4 + accessId)))"
    by (elim exE conjE)
  from w have eq: "w = fatTreeWorld"
    by (simp add: fatTree_K)
  have p: "(2::nat) < NUM_PODS K" and a: "(1::nat) < 2"
    by (simp_all add: NUM_K)
  from all [unfolded eq, rule_format, OF p a]
  obtain up0 up1 where up: "drop 2 (nodeLinks fatTreeWorld (PodNode 2 (4 + 1))) = [up0, up1]"
    and pe: "peer (PodNode 2 (4 + 1)) up0 = PodNode 2 6" "peer (PodNode 2 (4 + 1)) up1 = PodNode 2 7"
    and la: "list_all (\<lambda>r. gateway r = localAddr (PodNode 2 6) up0
                          \<and> outLink fatTreeWorld (PodNode 2 (4 + 1)) r = Some up0
                          \<and> outLink fatTreeWorld (PodNode 2 (4 + 1)) r \<noteq> Some up1)
               (staticRouting fatTreeWorld (PodNode 2 (4 + 1)))"
    by blast
  from up have "up0 = lnk (PodNode 2 5) (PodNode 2 6) (ipv4 10 2 2 25) (ipv4 10 2 2 26)"
    by (simp add: table_defs del: One_nat_def)
  with up pe la p a show ?thesis
    by (simp add: fatTree_K table_defs del: One_nat_def)
qed

lemma tier_lists:
  "servers K = [PodNode 0 0, PodNode 0 1, PodNode 0 2, PodNode 0 3,
                PodNode 1 0, PodNode 1 1, PodNode 1 2, PodNode 1 3,
                PodNode 2 0, PodNode 2 1, PodNode 2 2, PodNode 2 3,
                PodNode 3 0, PodNode 3 1, PodNode 3 2, PodNode 3 3]"
  "accessSwitches K = [PodNode 0 4, PodNode 0 5, PodNode 1 4, PodNode 1 5,
                       PodNode 2 4, PodNode 2 5, PodNode 3 4, PodNode 3 5]"
  "aggrSwitches K = [PodNode 0 6, PodNode 0 7, PodNode 1 6, PodNode 1 7,
                     PodNode 2 6, PodNode 2 7, PodNode 3 6, PodNode 3 7]"
  "coreSwitches K = [CoreNode 0, CoreNode 1, CoreNode 2, CoreNode 3]"
  by (simp_all add: servers_def accessSwitches_def aggrSwitches_def coreSwitches_def NUM_K upt_small
        del: One_nat_def)

lemma conflictFree_tiers:
  "list_all (\<lambda>n. conflictFree (staticRouting fatTreeWorld n))
     (servers K @ accessSwitches K @ coreSwitches K)"
  "list_all (\<lambda>n. \<not> conflictFree (staticRouting fatTreeWorld n)) (aggrSwitches K)"
  by (simp_all add: tier_lists conflictFree_def fatTreeWorld_sel staticRouting_fatTree
        ipv4_def mask24_def mask16_def del: One_nat_def)

lemma aggr_table:
  assumes "pod < 4" "aggrId < 2" "otherPod < 4" "otherPod \<noteq> pod" "t < 4"
  shows "map (peer (PodNode pod (6 + aggrId))) (drop 2 (nodeLinks fatTreeWorld (PodNode pod (6 + aggrId))))
           = [CoreNode (aggrId * 2), CoreNode (aggrId * 2 + 1)]
       \<and> entriesFor (staticRouting fatTreeWorld (PodNode pod (6 + aggrId))) (ipv4 10 otherPod 0 0) mask16
           = map (\<lambda>(i, l). rt (ipv4 10 otherPod 0 0) mask16 (localAddr (peer (PodNode pod (6 + aggrId)) l) l) (int i))
               (enumerate 3 (drop 2 (nodeLinks fatTreeWorld (PodNode pod (6 + aggrId)))))
       \<and> longestMatches (routingTable fatTreeWorld (PodNode pod (6 + aggrId))) (serverAddr otherPod t)
           = entriesFor (staticRouting fatTreeWorld (PodNode pod (6 + aggrId))) (ipv4 10 otherPod 0 0) mask16"
  using assms unfolding nat_lt4 nat_lt2
  apply (elim disjE)
  apply (simp_all add: table_defs routingTable_fatTree longestMatches_def IsMatch_def
           GetPrefixLength_masks serverAddr_def accessSwitchOf_def del: One_nat_def)
  done

text \<open>
  Claim C2, as amended.  The program installs every route it computes and rejects none:
  it runs through without an error.  The tables of the servers, the access switches and the
  core switches have no two entries for one prefix with different next hops.  The table of
  every aggregation switch has: for each other pod it holds two 10.otherPod.0.0/16 entries
  with different next hops, one through each of its two core switches.
\<close>

theorem route_conflicts_are_installed:
  "\<exists>w. fatTree K h = Inr w
     \<and> (\<forall>n\<in>set (servers K @ accessSwitches K @ coreSwitches K). conflictFree (staticRouting w n))
     \<and> (\<forall>n\<in>set (aggrSwitches K). \<not> conflictFree (staticRouting w n))
     \<and> (\<forall>pod<NUM_PODS K. \<forall>aggrId<2. \<forall>otherPod<NUM_PODS K. otherPod \<noteq> pod \<longrightarrow>
           (\<exists>r r'. entriesFor (staticRouting w (PodNode pod (6 + aggrId))) (ipv4 10 otherPod 0 0) mask16
                      = [r, r'] \<and> gateway r \<noteq> gateway r'))"
proof (rule exI [of _ fatTreeWorld], intro conjI allI impI)
  show "fatTree K h = Inr fatTreeWorld"
    by (rule fatTree_K)
  show "\<forall>n\<in>set (servers K @ accessSwitches K @ coreSwitches K). conflictFree (staticRouting fatTreeWorld n)"
    using conflictFree_tiers(1) unfolding list_all_iff .
  show "\<forall>n\<in>set (aggrSwitches K). \<not> conflictFree (staticRouting fatTreeWorld n)"
    using conflictFree_tiers(2) unfolding list_all_iff .
next
  fix pod aggrId otherPod :: nat
  assume a: "pod < NUM_PODS K" "aggrId < 2" "otherPod < NUM_PODS K" "otherPod \<noteq> pod"
  then have "pod < 4" "otherPod < 4"
    by (simp_all add: NUM_K)
  with a show "\<exists>r r'. entriesFor (staticRouting fatTreeWorld (PodNode pod (6 + aggrId))) (ipv4 10 otherPod 0 0) mask16
                      = [r, r'] \<and> gateway r \<noteq> gateway r'"
    unfolding nat_lt4 nat_lt2
    apply (elim disjE)
    apply (simp_all add: table_defs del: One_nat_def)
    done
qed

theorem route_conflicts_are_installed_witness:
  "fatTree K initialHelper = Inr fatTreeWorld
   \<and> CoreNode 2 \<in> set (servers K @ accessSwitches K @ coreSwitches K)
   \<and> conflictFree (staticRouting fatTreeWorld (CoreNode 2))
   \<and> PodNode 3 7 \<in> set (aggrSwitches K)
   \<and> \<not> conflictFree (staticRouting fatTreeWorld (PodNode 3 7))"
proof -
  from route_conflicts_are_installed [of initialHelper]
  obtain w where w: "fatTree K initialHelper = Inr w"
    and ok: "\<forall>n\<in>set (servers K @ accessSwitches K @ coreSwitches K). conflictFree (staticRouting w n)"
    and bad: "\<forall>n\<in>set (aggrSwitches K). \<not> conflictFree (staticRouting w n)"
    by (elim exE conjE)
  from w have eq: "w = fatTreeWorld"
    by (simp add: fatTree_K)
  have c: "CoreNode 2 \<in> set (servers K @ accessSwitches K @ coreSwitches K)"
    and a: "PodNode 3 7 \<in> set (aggrSwitches K)"
    by (simp_all add: tier_lists)
  from ok [unfolded eq, rule_format, OF c] bad [unfolded eq, rule_format, OF a] c a
  show ?thesis
    by (simp add: fatTree_K)
qed

text \<open>
  The claim as stated fails: the run is not rejected, and the table of aggregation switch 0
  of pod 0 holds two 10.1.0.0/16 entries whose next hops differ.
\<close>

theorem route_conflict_counterexample:
  "fatTree K initialHelper = Inr fatTreeWorld
   \<and> entriesFor (staticRouting fatTreeWorld (PodNode 0 6)) (ipv4 10 1 0 0) mask16
        = [rt (ipv4 10 1 0 0) mask16 (ipv4 10 10 0 2) 3, rt (ipv4 10 1 0 0) mask16 (ipv4 10 10 0 18) 4]
   \<and> ipv4 10 10 0 2 \<noteq> ipv4 10 10 0 18
   \<and> \<not> conflictFree (staticRouting fatTreeWorld (PodNode 0 6))"
  by (simp add: fatTree_K conflictFree_def table_defs del: One_nat_def)

text \<open>
  Claim C4, as amended.  Each aggregation switch has two uplinks, to core switches
  \<open>2 * aggrId\<close> and \<open>2 * aggrId + 1\<close>.  For every other pod its table holds exactly two
  entries for 10.otherPod.0.0/16, each with a single next hop: the first with the address of
  the first of these core switches and the interface of the link to it, the second likewise
  for the second.  Both are kept, and a lookup for any server address of the other pod has
  exactly these two entries as its longest matches.
\<close>

theorem aggregation_uplink_entries:
  "\<exists>w. fatTree K h = Inr w \<and>
     (\<forall>pod<NUM_PODS K. \<forall>aggrId<2. \<forall>otherPod<NUM_PODS K. otherPod \<noteq> pod \<longrightarrow>
        map (peer (PodNode pod (6 + aggrId))) (drop 2 (nodeLinks w (PodNode pod (6 + aggrId))))
           = [CoreNode (aggrId * 2), CoreNode (aggrId * 2 + 1)]
      \<and> entriesFor (staticRouting w (PodNode pod (6 + aggrId))) (ipv4 10 otherPod 0 0) mask16
           = map (\<lambda>(i, l). rt (ipv4 10 otherPod 0 0) mask16 (localAddr (peer (PodNode pod (6 + aggrId)) l) l) (int i))
               (enumerate 3 (drop 2 (nodeLinks w (PodNode pod (6 + aggrId)))))
      \<and> (\<forall>t<4. longestMatches (routingTable w (PodNode pod (6 + aggrId))) (serverAddr otherPod t)
                  = entriesFor (staticRouting w (PodNode pod (6 + aggrId))) (ipv4 10 otherPod 0 0) mask16))"
  using aggr_table [of _ _ _ 0] aggr_table
  by (intro exI [of _ fatTreeWorld] conjI fatTree_K allI impI) (simp_all add: NUM_K)

theorem aggregation_uplink_entries_witness:
  "fatTree K initialHelper = Inr fatTreeWorld
   \<and> (1::nat) < NUM_PODS K \<and> (1::nat) < 2 \<and> (3::nat) < NUM_PODS K \<and> (3::nat) \<noteq> 1
   \<and> map (peer (PodNode 1 7)) (drop 2 (nodeLinks fatTreeWorld (PodNode 1 7))) = [CoreNode 2, CoreNode 3]
   \<and> entriesFor (staticRouting fatTreeWorld (PodNode 1 7)) (ipv4 10 3 0 0) mask16
        = [rt (ipv4 10 3 0 0) mask16 (ipv4 10 10 0 38) 3, rt (ipv4 10 3 0 0) mask16 (ipv4 10 10 0 54) 4]"
proof -
  from aggregation_uplink_entries [of initialHelper]
  obtain w where w: "fatTree K initialHelper = Inr w"
    and all: "\<forall>pod<NUM_PODS K. \<forall>aggrId<2. \<forall>otherPod<NUM_PODS K. otherPod \<noteq> pod \<longrightarrow>
        map (peer (PodNode pod (6 + aggrId))) (drop 2 (nodeLinks w (PodNode pod (6 + aggrId))))
           = [CoreNode (aggrId * 2), CoreNode (aggrId * 2 + 1)]
      \<and> entriesFor (staticRouting w (PodNode pod (6 + aggrId))) (ipv4 10 otherPod 0 0) mask16
           = map (\<lambda>(i, l). rt (ipv4 10 otherPod 0 0) mask16 (localAddr (peer (PodNode pod (6 + aggrId)) l) l) (int i))
               (enumerate 3 (drop 2 (nodeLinks w (PodNode pod (6 + aggrId)))))
      \<and> (\<forall>t<4. longestMatches (routingTable w (PodNode pod (6 + aggrId))) (serverAddr otherPod t)
                  = entriesFor (staticRouting w (PodNode pod (6 + aggrId))) (ipv4 10 otherPod 0 0) mask16)"
    by (elim exE conjE)
  from w have eq: "w = fatTreeWorld"
    by (simp add: fatTree_K)
  have p: "(1::nat) < NUM_PODS K" and a: "(1::nat) < 2" and q: "(3::nat) < NUM_PODS K"
    and ne: "(3::nat) \<noteq> 1"
    by (simp_all add: NUM_K)
  from all [unfolded eq, rule_format, OF p a q ne] p a q ne
  show ?thesis
    by (simp add: fatTree_K table_defs del: One_nat_def)
qed

text \<open>
  The claim as stated fails: toward 10.1.0.0/16 the table of aggregation switch 0 of pod 0
  holds two entries, not one, and an entry has one next hop and one interface.
\<close>

theorem single_entry_counterexample:
  "fatTree K initialHelper = Inr fatTreeWorld
   \<and> length (entriesFor (staticRouting fatTreeWorld (PodNode 0 6)) (ipv4 10 1 0 0) mask16) = 2
   \<and> length (entriesFor (staticRouting fatTreeWorld (PodNode 0 6)) (ipv4 10 1 0 0) mask16) \<noteq> 1"
  by (simp add: fatTree_K table_defs del: One_nat_def)

section \<open>The L2 switch never sends a frame back out of its ingress device\<close>

lemma Learn_devices: "m_devices (Learn a d s) = m_devices s"
  by (simp add: Learn_def split: option.split)

lemma ForwardBroadcast_devs:
  "map outDev (ForwardBroadcast s inDevice p pr a b) = filter (\<lambda>d. d \<noteq> inDevice) (m_devices s)"
proof -
  have "map outDev (concat (map (\<lambda>device. if device \<noteq> inDevice
        then [\<lparr>outDev = device, payload = p, srcMac = a, dstMac = b, proto = pr\<rparr>] else []) ds))
      = filter (\<lambda>d. d \<noteq> inDevice) ds" for ds
    by (induction ds) simp_all
  then show ?thesis by (simp add: ForwardBroadcast_def)
qed

lemma count_list_filter_neq:
  "distinct ds \<Longrightarrow>
   count_list (filter (\<lambda>d. d \<noteq> x) ds) d = (if d \<in> set ds \<and> d \<noteq> x then 1 else 0)"
  by (induction ds) auto

text \<open>
  Claim C10.  Whatever frame \<open>ReceiveFromDevice\<close> is called with, no frame it sends leaves
  through the ingress device.  A unicast frame whose destination, looked up after the source
  has been learned, sits on the ingress device is dropped: nothing is sent.  A broadcast
  frame, or a unicast frame with an unknown destination, is flooded: the devices written to
  are the node's devices other than the ingress device, in order, so with the node's
  devices pairwise different each of them gets exactly one copy and the ingress device none.
\<close>

theorem l2_never_sends_on_ingress:
  "case ReceiveFromDevice s inDevice packet protocol source destination of (s', sent, handled) \<Rightarrow>
     (\<forall>f \<in> set sent. outDev f \<noteq> inDevice)
   \<and> (\<not> IsBroadcast destination \<and> GetLearnedPort (Learn source inDevice s) destination = Some inDevice
        \<longrightarrow> sent = [])
   \<and> (IsBroadcast destination \<or> GetLearnedPort (Learn source inDevice s) destination = None \<longrightarrow>
        map outDev sent = filter (\<lambda>d. d \<noteq> inDevice) (m_devices s)
      \<and> (distinct (m_devices s) \<longrightarrow>
           (\<forall>d. count_list (map outDev sent) d
                  = (if d \<in> set (m_devices s) \<and> d \<noteq> inDevice then 1 else 0))))"
proof -
  let ?s1 = "Learn source inDevice s"
  have "\<forall>f \<in> set (ForwardBroadcast ?s1 inDevice packet protocol source destination). outDev f \<noteq> inDevice"
    by (auto simp: ForwardBroadcast_def)
  then show ?thesis
    by (auto simp: ReceiveFromDevice_def Let_def ForwardUnicast_def ForwardBroadcast_devs
                   Learn_devices count_list_filter_neq
             split: if_splits option.splits)
qed

theorem l2_never_sends_on_ingress_witness:
  "\<not> IsBroadcast 2
   \<and> GetLearnedPort (Learn 1 0 \<lparr>m_macTable = [2 \<mapsto> 0], m_devices = [0::nat, 1, 2]\<rparr>) 2 = Some 0
   \<and> fst (snd (ReceiveFromDevice \<lparr>m_macTable = [2 \<mapsto> 0], m_devices = [0::nat, 1, 2]\<rparr>
                  0 () 2048 1 2)) = []
   \<and> IsBroadcast 0xFFFFFFFFFFFF
   \<and> distinct (m_devices \<lparr>m_macTable = [2 \<mapsto> 0], m_devices = [0::nat, 1, 2]\<rparr>)
   \<and> map outDev (fst (snd (ReceiveFromDevice \<lparr>m_macTable = [2 \<mapsto> 0], m_devices = [0::nat, 1, 2]\<rparr>
                  0 () 2048 1 0xFFFFFFFFFFFF))) = [1, 2]
   \<and> count_list (map outDev (fst (snd (ReceiveFromDevice
          \<lparr>m_macTable = [2 \<mapsto> 0], m_devices = [0::nat, 1, 2]\<rparr> 0 () 2048 1 0xFFFFFFFFFFFF)))) 0 = 0"
  using l2_never_sends_on_ingress
          [where s = "\<lparr>m_macTable = [2 \<mapsto> 0], m_devices = [0::nat, 1, 2]\<rparr>" and inDevice = 0
             and packet = "()" and protocol = 2048 and source = 1 and destination = 2]
        l2_never_sends_on_ingress
          [where s = "\<lparr>m_macTable = [2 \<mapsto> 0], m_devices = [0::nat, 1, 2]\<rparr>" and inDevice = 0
             and packet = "()" and protocol = 2048 and source = 1 and destination = "0xFFFFFFFFFFFF"]
  by (simp add: IsBroadcast_def GetLearnedPort_def Learn_def ReceiveFromDevice_def
        ForwardBroadcast_def split: prod.splits)

end
